theory Spec2Isabelle
  imports
    Complex_Main
    "HOL-Library.Sublist"
    "HOL-Library.Char_ord"
    "HOL-Library.List_Lexorder"
    "HOL-Library.Product_Lexorder"
    "HOL-Library.AList"
begin

section \<open>Report summaries of nibabies (\<^verbatim>\<open>nibabies/interfaces/reports.py\<close>)\<close>

text \<open>
  The module renders HTML report segments from the inputs of nipype interfaces. Python
  strings are modelled as \<^typ>\<open>string\<close>, Python's unbounded integers as \<^typ>\<open>int\<close>,
  every exception the code can raise as a value of \<open>py_error\<close> on the left of a sum, and
  the warning log as the list of messages that were emitted.

  Inputs hold values of their declared trait types. The unset state of an optional
  trait is modelled (as \<^const>\<open>None\<close>) for the inputs whose unset state the source
  itself inspects, with \<^verbatim>\<open>isdefined\<close> or by truthiness, and (as \<open>Undefined\<close>) for
  the two counts of dummy scans, which the source compares and tests against
  \<^verbatim>\<open>None\<close> with no test of the unset state.
\<close>

subsection \<open>Python values and their text\<close>

datatype py_error =
    AttributeError
  | IndexError
  | KeyError
  | TypeError
  | UnboundLocalError

text \<open>
  A trait that need not be set: it holds nipype's \<^verbatim>\<open>Undefined\<close> until a value is
  assigned. \<^verbatim>\<open>Undefined\<close> equals itself and no other value, is not \<^verbatim>\<open>None\<close>, and its
  text is \<open><undefined>\<close>.
\<close>

datatype 'a trait_value = Undefined | Defined 'a

definition TAB :: string where
  "TAB = [CHR 0x09]"

definition NL :: string where
  "NL = [CHR 0x0A]"

text \<open>\<^verbatim>\<open>str(n)\<close> of a non-negative integer: its decimal digits.\<close>

fun str_nat :: "nat \<Rightarrow> string" where
  "str_nat n =
     (if n < 10 then [''0123456789'' ! n]
      else str_nat (n div 10) @ [''0123456789'' ! (n mod 10)])"

declare str_nat.simps [simp del]

text \<open>\<^verbatim>\<open>str(i)\<close>, also what \<^verbatim>\<open>'{x}'.format(x=i)\<close> and \<^verbatim>\<open>'{x:d}'\<close> produce.\<close>

definition str_int :: "int \<Rightarrow> string" where
  "str_int i = (if i < 0 then ''-'' @ str_nat (nat (- i)) else str_nat (nat i))"

text \<open>\<^verbatim>\<open>str\<close> of a value that is an integer or Python's \<^verbatim>\<open>None\<close>.\<close>

definition str_int_opt :: "int option \<Rightarrow> string" where
  "str_int_opt v = (case v of None \<Rightarrow> ''None'' | Some i \<Rightarrow> str_int i)"

text \<open>\<^verbatim>\<open>sep.join(xs)\<close>.\<close>

fun join :: "string \<Rightarrow> string list \<Rightarrow> string" where
  "join sep [] = []"
| "join sep [x] = x"
| "join sep (x # y # ys) = x @ sep @ join sep (y # ys)"

subsection \<open>\<^verbatim>\<open>get_world_pedir\<close>\<close>

definition axes :: "(string \<times> string) list" where
  "axes = [(''Right'', ''Left''), (''Anterior'', ''Posterior''), (''Superior'', ''Inferior'')]"

text \<open>The dictionary \<^verbatim>\<open>ax_idcs\<close>; a missing key raises \<^verbatim>\<open>KeyError\<close>.\<close>

definition ax_idcs :: "char \<Rightarrow> py_error + nat" where
  "ax_idcs c =
     (if c = CHR ''i'' then Inr 0
      else if c = CHR ''j'' then Inr 1
      else if c = CHR ''k'' then Inr 2
      else Inl KeyError)"

text \<open>\<^verbatim>\<open>s[i]\<close> on a string, for a non-negative index.\<close>

definition str_index :: "string \<Rightarrow> nat \<Rightarrow> py_error + string" where
  "str_index s i = (if i < length s then Inr [s ! i] else Inl IndexError)"

text \<open>
  The pairs visited by the two nested loops, in order: each axis, then the axis
  reversed (\<^verbatim>\<open>ax[::-1]\<close>).
\<close>

definition flips :: "(string \<times> string) list" where
  "flips = concat (map (\<lambda>ax. [ax, (snd ax, fst ax)]) axes)"

text \<open>\<^verbatim>\<open>flip[not inv]\<close>: index 1 when \<^verbatim>\<open>inv\<close> is false, index 0 when it is true.\<close>

definition flip_at :: "(string \<times> string) \<Rightarrow> bool \<Rightarrow> string" where
  "flip_at flip inv_flag = (if \<not> inv_flag then snd flip else fst flip)"

definition pedir_warning :: "string \<Rightarrow> string option \<Rightarrow> string" where
  "pedir_warning ornt pe_direction =
     ''Cannot determine world direction of phase encoding. '' @
     ''Orientation: '' @ ornt @ ''; PE dir: '' @
     (case pe_direction of None \<Rightarrow> ''None'' | Some p \<Rightarrow> p)"

definition pedir_fallback :: string where
  "pedir_fallback = ''Could not be determined - assuming Anterior-Posterior''"

text \<open>
  The result is the returned string together with the warnings logged on the way, or
  the exception raised by one of the three subscripts of the first assignment.
\<close>

definition get_world_pedir :: "string \<Rightarrow> string option \<Rightarrow> py_error + (string \<times> string list)" where
  "get_world_pedir ornt pe_direction =
     (let not_found = Inr (pedir_fallback, [pedir_warning ornt pe_direction]) in
      case pe_direction of
        None \<Rightarrow> not_found
      | Some p \<Rightarrow>
          (case p of
             [] \<Rightarrow> Inl IndexError
           | c # sign \<Rightarrow>
               (case ax_idcs c of
                  Inl e \<Rightarrow> Inl e
                | Inr idx \<Rightarrow>
                    (case str_index ornt idx of
                       Inl e \<Rightarrow> Inl e
                     | Inr axcode \<Rightarrow>
                         (let inv_flag = (sign = ''-'') in
                          case find (\<lambda>flip. prefix axcode (flip_at flip inv_flag)) flips of
                            Some flip \<Rightarrow> Inr (join ''-'' [fst flip, snd flip], [])
                          | None \<Rightarrow> not_found)))))"

subsection \<open>\<^verbatim>\<open>FunctionalSummary\<close>\<close>

datatype slice_timing_value = ST_False | ST_True | ST_TooShort

datatype registration_method = FSL | FreeSurfer

datatype registration_init_value = Init_t1w | Init_t2w | Init_header

record functional_inputs =
  slice_timing :: "slice_timing_value option"
  distortion_correction :: string
  pe_direction :: "string option"
  registration :: registration_method
  fallback :: bool
  registration_dof :: int
  registration_init :: registration_init_value
  tr :: real
  dummy_scans :: "int option trait_value"
  algo_dummy_scans :: "int trait_value"
  echo_idx :: "string list"
  orientation :: string

text \<open>Lines 265 to 272: the slice-timing text.\<close>

definition stc_text :: "slice_timing_value option \<Rightarrow> string" where
  "stc_text st =
     (case st of
        Some v \<Rightarrow>
          (case v of
             ST_True \<Rightarrow> ''Applied''
           | ST_False \<Rightarrow> ''Not applied''
           | ST_TooShort \<Rightarrow> ''Skipped (too few volumes)'')
      | None \<Rightarrow> ''n/a'')"

text \<open>
  Lines 274 to 285: the table of registration texts, one two-element list for each
  method, indexed by the fallback flag (\<^verbatim>\<open>False\<close> is index 0, \<^verbatim>\<open>True\<close> index 1).
\<close>

definition reg_table :: "int \<Rightarrow> registration_method \<Rightarrow> string list" where
  "reg_table dof m =
     (case m of
        FSL \<Rightarrow>
          [''FSL <code>flirt</code> with boundary-based registration'' @
             '' (BBR) metric - '' @ str_int dof @ '' dof'',
           ''FSL <code>flirt</code> rigid registration - 6 dof'']
      | FreeSurfer \<Rightarrow>
          [''FreeSurfer <code>bbregister</code> '' @
             ''(boundary-based registration, BBR) - '' @ str_int dof @ '' dof'',
           ''FreeSurfer <code>mri_coreg</code> - '' @ str_int dof @ '' dof''])"

definition reg_text :: "int \<Rightarrow> registration_method \<Rightarrow> bool \<Rightarrow> string" where
  "reg_text dof m fb = reg_table dof m ! (if fb then 1 else 0)"

text \<open>The text of \<^verbatim>\<open>dummy_scans\<close> (an integer, \<^verbatim>\<open>None\<close>, or unset) and of \<^verbatim>\<open>algo_dummy_scans\<close>.\<close>

definition str_dummy_scans :: "int option trait_value \<Rightarrow> string" where
  "str_dummy_scans v = (case v of Undefined \<Rightarrow> ''<undefined>'' | Defined d \<Rightarrow> str_int_opt d)"

definition str_algo_dummy_scans :: "int trait_value \<Rightarrow> string" where
  "str_algo_dummy_scans v = (case v of Undefined \<Rightarrow> ''<undefined>'' | Defined n \<Rightarrow> str_int n)"

text \<open>\<^verbatim>\<open>self.inputs.dummy_scans == self.inputs.algo_dummy_scans\<close>.\<close>

definition dummy_scans_eq :: "int option trait_value \<Rightarrow> int trait_value \<Rightarrow> bool" where
  "dummy_scans_eq n_dum n_alg =
     (case n_dum of
        Undefined \<Rightarrow> n_alg = Undefined
      | Defined d \<Rightarrow> (case n_alg of Undefined \<Rightarrow> False | Defined n \<Rightarrow> d = Some n))"

text \<open>
  Lines 289 to 302: the dummy-scan message. The second test is \<^verbatim>\<open>is not None\<close>,
  which an unset \<^verbatim>\<open>dummy_scans\<close> passes.
\<close>

definition dummy_scan_msg :: "int option trait_value \<Rightarrow> int trait_value \<Rightarrow> string" where
  "dummy_scan_msg n_dum n_alg =
     (if dummy_scans_eq n_dum n_alg then
        join '' '' [str_dummy_scans n_dum,
                    ''(Confirmed: '' @ str_algo_dummy_scans n_alg @ '' automatically detected)'']
      else if n_dum \<noteq> Defined None then
        join '' '' [str_dummy_scans n_dum,
                    ''(Warning: '' @ str_algo_dummy_scans n_alg @ '' automatically detected)'']
      else str_algo_dummy_scans n_alg)"

text \<open>Lines 304 to 312: the echo text; the second test overrides the first.\<close>

definition multiecho_text :: "string list \<Rightarrow> string" where
  "multiecho_text echoes =
     (let multiecho0 = ''Single-echo EPI sequence.'';
          n_echos = length echoes;
          multiecho1 =
            (if n_echos = 1 then
               ''Multi-echo EPI sequence: only echo '' @ echoes ! 0 @ '' processed '' @
               ''in single-echo mode.''
             else multiecho0)
      in if n_echos > 2 then ''Multi-echo EPI sequence: '' @ str_nat n_echos @ '' echoes.''
         else multiecho1)"

text \<open>
  \<^verbatim>\<open>FUNCTIONAL_TEMPLATE.format(...)\<close>, on the record of the keyword arguments as
  texts. The rendering of the repetition time (\<^verbatim>\<open>{tr:.03g}\<close>, a floating-point
  format) is a parameter.
\<close>

record functional_kwargs =
  kw_ornt :: string
  kw_tr :: string
  kw_pedir :: string
  kw_multiecho :: string
  kw_stc :: string
  kw_sdc :: string
  kw_registration :: string
  kw_dummy_scan_desc :: string

definition FUNCTIONAL_TEMPLATE :: "functional_kwargs \<Rightarrow> string" where
  \<open>FUNCTIONAL_TEMPLATE kw =
     TAB @ TAB @ ''<details open>'' @ NL @
     TAB @ TAB @ ''<summary>Summary</summary>'' @ NL @
     TAB @ TAB @ ''<ul class="elem-desc">'' @ NL @
     TAB @ TAB @ TAB @ ''<li>Original orientation: '' @ kw_ornt kw @ ''</li>'' @ NL @
     TAB @ TAB @ TAB @ ''<li>Repetition time (TR): '' @ kw_tr kw @ ''s</li>'' @ NL @
     TAB @ TAB @ TAB @ ''<li>Phase-encoding (PE) direction: '' @ kw_pedir kw @ ''</li>'' @ NL @
     TAB @ TAB @ TAB @ ''<li>'' @ kw_multiecho kw @ ''</li>'' @ NL @
     TAB @ TAB @ TAB @ ''<li>Slice timing correction: '' @ kw_stc kw @ ''</li>'' @ NL @
     TAB @ TAB @ TAB @ ''<li>Susceptibility distortion correction: '' @ kw_sdc kw @ ''</li>'' @ NL @
     TAB @ TAB @ TAB @ ''<li>Registration: '' @ kw_registration kw @ ''</li>'' @ NL @
     TAB @ TAB @ TAB @ ''<li>Non-steady-state volumes: '' @ kw_dummy_scan_desc kw @ ''</li>'' @ NL @
     TAB @ TAB @ ''</ul>'' @ NL @
     TAB @ TAB @ ''</details>'' @ NL\<close>

definition FunctionalSummary_generate_segment ::
  "(real \<Rightarrow> string) \<Rightarrow> functional_inputs \<Rightarrow> py_error + (string \<times> string list)" where
  "FunctionalSummary_generate_segment fmt_03g inputs =
     (let dof = registration_dof inputs;
          stc = stc_text (slice_timing inputs);
          reg = reg_text dof (registration inputs) (fallback inputs)
      in case get_world_pedir (orientation inputs) (pe_direction inputs) of
           Inl e \<Rightarrow> Inl e
         | Inr (pedir, warnings) \<Rightarrow>
             (let dummy_scan_desc = dummy_scan_msg (dummy_scans inputs) (algo_dummy_scans inputs);
                  multiecho = multiecho_text (echo_idx inputs)
              in Inr (FUNCTIONAL_TEMPLATE
                        \<lparr>kw_ornt = orientation inputs, kw_tr = fmt_03g (tr inputs),
                         kw_pedir = pedir, kw_multiecho = multiecho, kw_stc = stc,
                         kw_sdc = distortion_correction inputs, kw_registration = reg,
                         kw_dummy_scan_desc = dummy_scan_desc\<rparr>,
                      warnings)))"

subsection \<open>\<^verbatim>\<open>SubjectSummary\<close>: the pattern \<^verbatim>\<open>BIDS_NAME\<close>\<close>

text \<open>The character class \<^verbatim>\<open>[a-zA-Z0-9]\<close>.\<close>

definition alnum :: "char \<Rightarrow> bool" where
  "alnum c \<longleftrightarrow>
     (CHR ''a'' \<le> c \<and> c \<le> CHR ''z'') \<or>
     (CHR ''A'' \<le> c \<and> c \<le> CHR ''Z'') \<or>
     (CHR ''0'' \<le> c \<and> c \<le> CHR ''9'')"

text \<open>
  An entity \<^verbatim>\<open>tag[a-zA-Z0-9]+\<close> at the head of the text: the matched text and the
  rest. The repetition is greedy, and nothing after an entity is mandatory, so the
  longest run of the class is what the match keeps.
\<close>

definition match_entity :: "string \<Rightarrow> string \<Rightarrow> (string \<times> string) option" where
  "match_entity tag s =
     (if prefix tag s then
        (let rest = drop (length tag) s;
             v = takeWhile alnum rest
         in if v = [] then None else Some (tag @ v, dropWhile alnum rest))
      else None)"

text \<open>An optional group \<^verbatim>\<open>(_(?P<name>tag[a-zA-Z0-9]+))?\<close>: the value of the named group and the rest.\<close>

definition match_optional :: "string \<Rightarrow> string \<Rightarrow> string option \<times> string" where
  "match_optional tag s =
     (case s of
        [] \<Rightarrow> (None, s)
      | c # s' \<Rightarrow>
          (if c = CHR ''_'' then
             (case match_entity tag s' of
                None \<Rightarrow> (None, s)
              | Some (v, r) \<Rightarrow> (Some v, r))
           else (None, s)))"

text \<open>
  The pattern from the subject entity on, with the dictionary \<^verbatim>\<open>groupdict()\<close> of the
  match: a group that took no part in the match has the value \<^verbatim>\<open>None\<close>.
\<close>

definition match_groups :: "string \<Rightarrow> (string \<times> string option) list option" where
  "match_groups s =
     (case match_entity ''sub-'' s of
        None \<Rightarrow> None
      | Some (sub, r0) \<Rightarrow>
          (let (ses, r1) = match_optional ''ses-'' r0;
               (task, r2) = match_optional ''task-'' r1;
               (acq, r3) = match_optional ''acq-'' r2;
               (rec, r4) = match_optional ''rec-'' r3;
               (run, r5) = match_optional ''run-'' r4
           in Some [(''subject_id'', Some sub), (''session_id'', ses), (''task_id'', task),
                    (''acq_id'', acq), (''rec_id'', rec), (''run_id'', run)]))"

text \<open>
  The texts that follow a slash which the directory group \<^verbatim>\<open>(.*\/)?\<close> can end at, from
  left to right: \<^verbatim>\<open>.\<close> matches no newline, so the slash lies in the first line.
\<close>

fun slash_suffixes :: "string \<Rightarrow> string list" where
  "slash_suffixes [] = []"
| "slash_suffixes (c # cs) =
     (if c = CHR 0x0A then []
      else (if c = CHR ''/'' then [cs] else []) @ slash_suffixes cs)"

text \<open>
  \<^verbatim>\<open>BIDS_NAME.search(series)\<close>. The pattern is anchored at the start of the text. The
  directory group is tried first, its \<^verbatim>\<open>.*\<close> from the longest to the shortest, then
  the pattern without it; the first start at which a subject entity matches is kept.
\<close>

definition BIDS_NAME_search :: "string \<Rightarrow> (string \<times> string option) list option" where
  "BIDS_NAME_search series =
     (case find (\<lambda>c. match_entity ''sub-'' c \<noteq> None) (rev (slash_suffixes series) @ [series]) of
        None \<Rightarrow> None
      | Some c \<Rightarrow> match_groups c)"

text \<open>
  \<^verbatim>\<open>BIDS_NAME.search(series).groupdict()['task_id'][5:]\<close>: no match raises
  \<^verbatim>\<open>AttributeError\<close>, a match without task entity \<^verbatim>\<open>TypeError\<close> (the slice of \<^verbatim>\<open>None\<close>).
\<close>

definition series_task :: "string \<Rightarrow> py_error + string" where
  "series_task series =
     (case BIDS_NAME_search series of
        None \<Rightarrow> Inl AttributeError
      | Some groups \<Rightarrow>
          (case map_of groups ''task_id'' of
             None \<Rightarrow> Inl KeyError
           | Some None \<Rightarrow> Inl TypeError
           | Some (Some t) \<Rightarrow> Inr (drop 5 t)))"

subsection \<open>\<^verbatim>\<open>SubjectSummary\<close>: counting the tasks\<close>

text \<open>An element of \<^verbatim>\<open>bold\<close>: one file, or the list of the files of a multi-echo series.\<close>

datatype bold_entry = BoldFile string | BoldList "string list"

text \<open>\<^verbatim>\<open>s[0] if isinstance(s, list) else s\<close>.\<close>

definition first_file :: "bold_entry \<Rightarrow> py_error + string" where
  "first_file s =
     (case s of
        BoldFile f \<Rightarrow> Inr f
      | BoldList fs \<Rightarrow> (case fs of [] \<Rightarrow> Inl IndexError | f # _ \<Rightarrow> Inr f))"

fun first_files :: "bold_entry list \<Rightarrow> py_error + string list" where
  "first_files [] = Inr []"
| "first_files (s # ss) =
     (case first_file s of
        Inl e \<Rightarrow> Inl e
      | Inr f \<Rightarrow> (case first_files ss of Inl e \<Rightarrow> Inl e | Inr fs \<Rightarrow> Inr (f # fs)))"

text \<open>
  A \<^verbatim>\<open>Counter\<close> is a dictionary in insertion order: counting a key that is present
  changes its count in place, a new key goes to the end.
\<close>

definition counter_incr :: "string \<Rightarrow> (string \<times> nat) list \<Rightarrow> (string \<times> nat) list" where
  "counter_incr k counts =
     (case map_of counts k of
        None \<Rightarrow> counts @ [(k, 1)]
      | Some n \<Rightarrow> AList.update k (n + 1) counts)"

text \<open>\<^verbatim>\<open>Counter(... for series in bold_series)\<close>: the first series that fails ends the count.\<close>

fun count_tasks :: "string list \<Rightarrow> (string \<times> nat) list \<Rightarrow> py_error + (string \<times> nat) list" where
  "count_tasks [] counts = Inr counts"
| "count_tasks (series # rest) counts =
     (case series_task series of
        Inl e \<Rightarrow> Inl e
      | Inr t \<Rightarrow> count_tasks rest (counter_incr t counts))"

definition task_line :: "string \<times> nat \<Rightarrow> string" where
  "task_line item =
     (case item of (task_id, n_runs) \<Rightarrow>
        TAB @ TAB @ TAB @ ''<li>Task: '' @ task_id @ '' ('' @ str_nat n_runs @ '' run'' @
        (if n_runs = 1 then [] else ''s'') @ '')</li>'')"

definition tasks_header :: string where
  \<open>tasks_header = TAB @ TAB @ ''<ul class="elem-desc">''\<close>

definition tasks_footer :: string where
  "tasks_footer = TAB @ TAB @ ''</ul>''"

text \<open>
  Lines 194 to 204. \<^verbatim>\<open>sorted(counts.items())\<close> sorts the pairs of task and count, in
  the order of pairs over Python's order of strings (by character code).
\<close>

definition tasks_text :: "(string \<times> nat) list \<Rightarrow> string" where
  "tasks_text counts =
     (if counts \<noteq> [] then join NL ([tasks_header] @ map task_line (sort counts) @ [tasks_footer])
      else [])"

subsection \<open>\<^verbatim>\<open>SubjectSummary\<close>: the segment\<close>

datatype anatomical_reference_value = T1w | T2w

datatype recon_method_value = Recon_freesurfer | Recon_infantfs | Recon_mcribs

record subject_inputs =
  t1w :: "string list option"
  t2w :: "string list option"
  subjects_dir :: "string option"
  subject_id :: string
  session_id :: "string option"
  anatomical_reference :: anatomical_reference_value
  bold :: "bold_entry list option"
  std_spaces :: "string list"
  nstd_spaces :: "string list"
  recon_method :: "recon_method_value option"
  age :: int

text \<open>
  What the segment asks of the world outside the module: the command line that
  \<^verbatim>\<open>ReconAll\<close> and \<^verbatim>\<open>InfantReconAll\<close> build from a subjects directory, a subject
  identifier and the T1w files, and whether a path, given by its components, exists.
\<close>

record recon_env =
  ReconAll_cmdline :: "string \<Rightarrow> string \<Rightarrow> string list option \<Rightarrow> string"
  InfantReconAll_cmdline :: "string \<Rightarrow> string \<Rightarrow> string list option \<Rightarrow> string"
  path_exists :: "string list \<Rightarrow> bool"

text \<open>
  \<^verbatim>\<open>_run_interface\<close> sets the attribute \<^verbatim>\<open>_recon_id\<close> only for a non-empty subject
  identifier; \<^const>\<open>None\<close> stands for the attribute that was never set.
\<close>

definition recon_id :: "subject_inputs \<Rightarrow> string option" where
  "recon_id inputs =
     (if subject_id inputs \<noteq> [] then
        Some (''sub-'' @ subject_id inputs @
              (case session_id inputs of
                 None \<Rightarrow> []
               | Some ses \<Rightarrow> if ses \<noteq> [] then ''_ses-'' @ ses else []))
      else None)"

definition status_no :: string where "status_no = ''Not run''"
definition status_todo :: string where "status_todo = ''Run by NiBabies''"
definition status_done :: string where "status_done = ''Pre-existing directory''"

text \<open>
  Lines 142 to 178. The result \<open>Inr None\<close> is the state in which no branch has assigned
  \<^verbatim>\<open>recon_status\<close>; reading the attribute \<^verbatim>\<open>_recon_id\<close> that was never set raises
  \<^verbatim>\<open>AttributeError\<close>.
\<close>

definition recon_status_of ::
  "recon_env \<Rightarrow> string option \<Rightarrow> subject_inputs \<Rightarrow> py_error + string option" where
  "recon_status_of env rid inputs =
     (case subjects_dir inputs of
        None \<Rightarrow> Inr (Some status_no)
      | Some dir \<Rightarrow>
          (if dir = [] then Inr (Some status_no)
           else
             (case recon_method inputs of
                Some Recon_freesurfer \<Rightarrow>
                  (case rid of
                     None \<Rightarrow> Inl AttributeError
                   | Some r \<Rightarrow>
                       Inr (Some (if prefix ''echo'' (ReconAll_cmdline env dir r (t1w inputs))
                                  then status_done else status_todo)))
              | Some Recon_infantfs \<Rightarrow>
                  (case rid of
                     None \<Rightarrow> Inl AttributeError
                   | Some r \<Rightarrow>
                       Inr (Some (if prefix ''echo''
                                       (InfantReconAll_cmdline env dir r (t1w inputs))
                                  then status_done else status_todo)))
              | Some Recon_mcribs \<Rightarrow>
                  (case rid of
                     None \<Rightarrow> Inl AttributeError
                   | Some r \<Rightarrow>
                       Inr (Some (if path_exists env [dir, r, ''scripts'', ''mcribs.log'']
                                  then status_done else status_todo)))
              | None \<Rightarrow> Inr None)))"

text \<open>\<^verbatim>\<open>SUBJECT_TEMPLATE.format(...)\<close>, on the record of the keyword arguments as texts.\<close>

record subject_kwargs =
  kw_subject_id :: string
  kw_session_id :: string
  kw_age :: string
  kw_num_t1w :: string
  kw_num_t2w :: string
  kw_anat_ref :: string
  kw_n_bold :: string
  kw_tasks :: string
  kw_std_spaces :: string
  kw_nstd_spaces :: string
  kw_recon_method :: string
  kw_recon_status :: string

definition SUBJECT_TEMPLATE :: "subject_kwargs \<Rightarrow> string" where
  \<open>SUBJECT_TEMPLATE kw =
     TAB @ ''<ul class="elem-desc">'' @ NL @
     TAB @ TAB @ ''<li>Subject ID: '' @ kw_subject_id kw @ ''</li>'' @ NL @
     TAB @ TAB @ ''<li>Session ID: '' @ kw_session_id kw @ ''</li>'' @ NL @
     TAB @ TAB @ ''<li>Chronological age (months): '' @ kw_age kw @ ''</li>'' @ NL @
     TAB @ TAB @ ''<li>Structural images: '' @ kw_num_t1w kw @ '' T1-weighted, '' @
       kw_num_t2w kw @ '' T2-weighted</li>'' @ NL @
     TAB @ TAB @ ''<li>Anatomical reference space: '' @ kw_anat_ref kw @ ''<li>'' @ NL @
     TAB @ TAB @ ''<li>Functional series: '' @ kw_n_bold kw @ ''</li>'' @ NL @
     kw_tasks kw @ NL @
     TAB @ TAB @ ''<li>Standard output spaces: '' @ kw_std_spaces kw @ ''</li>'' @ NL @
     TAB @ TAB @ ''<li>Non-standard output spaces: '' @ kw_nstd_spaces kw @ ''</li>'' @ NL @
     TAB @ TAB @ ''<li>Surface reconstruction method: '' @ kw_recon_method kw @ ''</li>'' @ NL @
     TAB @ TAB @ ''<li>Surface reconstruction status: '' @ kw_recon_status kw @ ''</li>'' @ NL @
     TAB @ ''</ul>'' @ NL\<close>

definition str_session :: "string option \<Rightarrow> string" where
  "str_session v = (case v of None \<Rightarrow> ''<undefined>'' | Some s \<Rightarrow> s)"

definition str_anat :: "anatomical_reference_value \<Rightarrow> string" where
  "str_anat v = (case v of T1w \<Rightarrow> ''T1w'' | T2w \<Rightarrow> ''T2w'')"

definition str_recon_method :: "recon_method_value option \<Rightarrow> string" where
  "str_recon_method v =
     (case v of
        None \<Rightarrow> ''None''
      | Some Recon_freesurfer \<Rightarrow> ''freesurfer''
      | Some Recon_infantfs \<Rightarrow> ''infantfs''
      | Some Recon_mcribs \<Rightarrow> ''mcribs'')"

text \<open>\<^verbatim>\<open>self.inputs.bold if isdefined(self.inputs.bold) else []\<close>.\<close>

definition bold_or_empty :: "subject_inputs \<Rightarrow> bold_entry list" where
  "bold_or_empty inputs = (case bold inputs of None \<Rightarrow> [] | Some b \<Rightarrow> b)"

text \<open>\<^verbatim>\<open>len(xs)\<close> for a non-empty list, 0 for an empty or unset one.\<close>

definition num_files :: "string list option \<Rightarrow> nat" where
  "num_files v = (case v of None \<Rightarrow> 0 | Some xs \<Rightarrow> length xs)"

text \<open>
  \<^verbatim>\<open>SubjectSummary._generate_segment\<close>, in the order of the source: the status, the
  counts of structural images, the tasks, and last the arguments of the template,
  where reading \<^verbatim>\<open>recon_status\<close> raises \<^verbatim>\<open>UnboundLocalError\<close> when no branch assigned it.
\<close>

definition SubjectSummary_generate_segment ::
  "recon_env \<Rightarrow> string option \<Rightarrow> subject_inputs \<Rightarrow> py_error + string" where
  "SubjectSummary_generate_segment env rid inputs =
     (case recon_status_of env rid inputs of
        Inl e \<Rightarrow> Inl e
      | Inr recon_status \<Rightarrow>
          (let num_t1w = num_files (t1w inputs);
               num_t2w = num_files (t2w inputs)
           in case first_files (bold_or_empty inputs) of
                Inl e \<Rightarrow> Inl e
              | Inr bold_series \<Rightarrow>
                  (case count_tasks bold_series [] of
                     Inl e \<Rightarrow> Inl e
                   | Inr counts \<Rightarrow>
                       (let tasks = tasks_text counts in
                        case recon_status of
                          None \<Rightarrow> Inl UnboundLocalError
                        | Some status \<Rightarrow>
                            Inr (SUBJECT_TEMPLATE
                                   \<lparr>kw_subject_id = subject_id inputs,
                                    kw_session_id = str_session (session_id inputs),
                                    kw_age = str_int (age inputs),
                                    kw_num_t1w = str_nat num_t1w,
                                    kw_num_t2w = str_nat num_t2w,
                                    kw_anat_ref = str_anat (anatomical_reference inputs),
                                    kw_n_bold = str_nat (length bold_series),
                                    kw_tasks = tasks,
                                    kw_std_spaces = join '', '' (std_spaces inputs),
                                    kw_nstd_spaces = join '', '' (nstd_spaces inputs),
                                    kw_recon_method = str_recon_method (recon_method inputs),
                                    kw_recon_status = status\<rparr>)))))"

text \<open>\<^verbatim>\<open>SubjectSummary._run_interface\<close>, as far as the segment goes.\<close>

definition SubjectSummary_run_interface :: "recon_env \<Rightarrow> subject_inputs \<Rightarrow> py_error + string" where
  "SubjectSummary_run_interface env inputs =
     SubjectSummary_generate_segment env (recon_id inputs) inputs"

subsection \<open>\<^verbatim>\<open>LabeledHistogram\<close>\<close>

text \<open>
  A value of the image, as far as the comparison with zero sees it: not a number,
  an infinity, or a finite number.
\<close>

datatype fval = NaN | NegInf | PosInf | Finite real

text \<open>\<^verbatim>\<open>v > 0\<close> on such a value.\<close>

definition positive :: "fval \<Rightarrow> bool" where
  "positive v = (case v of NaN \<Rightarrow> False | NegInf \<Rightarrow> False | PosInf \<Rightarrow> True | Finite r \<Rightarrow> 0 < r)"

text \<open>The key of a group: a label itself, or the name that the mapping gives it.\<close>

datatype roi_key = LabelKey int | NameKey string

text \<open>\<^verbatim>\<open>np.uint8(data > 0)\<close>, on the flattened image.\<close>

definition implicit_labels :: "fval list \<Rightarrow> nat list" where
  "implicit_labels data = map (\<lambda>v. if positive v then 1 else 0) data"

text \<open>\<^verbatim>\<open>np.unique(labels[labels > 0])\<close>: the distinct positive labels, sorted.\<close>

definition uniq_labels :: "nat list \<Rightarrow> nat list" where
  "uniq_labels labels = sort (remdups (filter (\<lambda>l. 0 < l) labels))"

text \<open>\<^verbatim>\<open>data[labels == label]\<close>, on the flattened arrays.\<close>

definition select_label :: "fval list \<Rightarrow> nat list \<Rightarrow> int \<Rightarrow> fval list" where
  "select_label data labels label = map fst (filter (\<lambda>p. int (snd p) = label) (zip data labels))"

text \<open>
  Lines 367 to 378: the groups handed to the plot. The arguments are the flattened values
  of \<^verbatim>\<open>in_file\<close>, the flattened labels of the label image on the grid of \<^verbatim>\<open>in_file\<close>
  (\<^const>\<open>None\<close> when no \<^verbatim>\<open>label_file\<close> is given), and the dictionary \<^verbatim>\<open>mapping\<close> in
  insertion order (empty when unset). A key that comes twice in the comprehension keeps
  its place and takes the later value.
\<close>

definition LabeledHistogram_rois ::
  "fval list \<Rightarrow> nat list option \<Rightarrow> (int \<times> string) list \<Rightarrow> (roi_key \<times> fval list) list" where
  "LabeledHistogram_rois data label_img mapping =
     (let labels = (case label_img of Some l \<Rightarrow> l | None \<Rightarrow> implicit_labels data);
          label_map =
            (if mapping \<noteq> [] then map (\<lambda>(k, v). (k, NameKey v)) mapping
             else map (\<lambda>l. (int l, LabelKey (int l))) (uniq_labels labels))
      in foldl (\<lambda>rois label.
                  AList.update
                    (case map_of label_map label of Some name \<Rightarrow> name | None \<Rightarrow> LabelKey label)
                    (select_label data labels label) rois)
           [] (map fst label_map))"

subsection \<open>Alphabetical order\<close>

text \<open>
  Alphabetical order of identifiers, the order that the specification gives to the task
  lines: texts are compared letter by letter, an upper-case letter standing for its
  lower-case letter.
\<close>

definition lower :: "char \<Rightarrow> char" where
  "lower c =
     (case map_of (zip ''ABCDEFGHIJKLMNOPQRSTUVWXYZ'' ''abcdefghijklmnopqrstuvwxyz'') c of
        Some l \<Rightarrow> l
      | None \<Rightarrow> c)"

definition alphabetical :: "string list \<Rightarrow> bool" where
  "alphabetical xs = sorted (map (map lower) xs)"

subsection \<open>Example inputs\<close>

text \<open>A functional series whose user count of dummy scans was never set.\<close>

definition example_functional :: functional_inputs where
  "example_functional =
     \<lparr>slice_timing = Some ST_True, distortion_correction = ''None'',
      pe_direction = Some ''j-'', registration = FreeSurfer, fallback = False,
      registration_dof = 6, registration_init = Init_t2w, tr = 2,
      dummy_scans = Undefined, algo_dummy_scans = Defined 3, echo_idx = [''1''],
      orientation = ''LAS''\<rparr>"

text \<open>The keyword arguments that the segment of this series is formatted from.\<close>

definition example_functional_kwargs :: functional_kwargs where
  "example_functional_kwargs =
     \<lparr>kw_ornt = ''LAS'', kw_tr = ''2'', kw_pedir = ''Anterior-Posterior'',
      kw_multiecho = ''Multi-echo EPI sequence: only echo 1 processed in single-echo mode.'',
      kw_stc = ''Applied'', kw_sdc = ''None'',
      kw_registration =
        ''FreeSurfer <code>bbregister</code> (boundary-based registration, BBR) - 6 dof'',
      kw_dummy_scan_desc = ''<undefined> (Warning: 3 automatically detected)''\<rparr>"

definition example_env :: recon_env where
  "example_env =
     \<lparr>ReconAll_cmdline = (\<lambda>d r t. ''recon-all -all''),
      InfantReconAll_cmdline = (\<lambda>d r t. ''echo infant_recon_all: nothing to do''),
      path_exists = (\<lambda>p. False)\<rparr>"

definition example_subject :: subject_inputs where
  "example_subject =
     \<lparr>t1w = Some [''sub-01_T1w.nii.gz''], t2w = None, subjects_dir = None,
      subject_id = ''01'', session_id = None, anatomical_reference = T1w,
      bold = Some [BoldFile ''/data/sub-01/func/sub-01_task-rest_run-1_bold.nii.gz'',
                   BoldList [''sub-01_task-nback_echo-1_bold.nii.gz'',
                             ''sub-01_task-nback_echo-2_bold.nii.gz''],
                   BoldFile ''/data/sub-01/func/sub-01_task-rest_run-2_bold.nii.gz''],
      std_spaces = [''MNIInfant'', ''fsLR''], nstd_spaces = [''T1w''],
      recon_method = None, age = 8\<rparr>"


section \<open>Properties\<close>

subsection \<open>Decimal text\<close>

lemma digit_mem: "k < 10 \<Longrightarrow> ''0123456789'' ! k \<in> set ''0123456789''"
  by (rule nth_mem) simp

lemma set_str_nat: "set (str_nat n) \<subseteq> set ''0123456789''"
proof (induction n rule: str_nat.induct)
  case (1 n)
  show ?case
  proof (cases "n < 10")
    case True
    have "str_nat n = [''0123456789'' ! n]" using True by (subst str_nat.simps) simp
    then show ?thesis using digit_mem[OF True] by simp
  next
    case False
    have m: "''0123456789'' ! (n mod 10) \<in> set ''0123456789''" by (rule digit_mem) simp
    have e: "str_nat n = str_nat (n div 10) @ [''0123456789'' ! (n mod 10)]"
      using False by (subst str_nat.simps) simp
    show ?thesis unfolding e using "1.IH"[OF False] m by simp
  qed
qed

lemma set_str_int: "set (str_int i) \<subseteq> set ''-0123456789''"
proof (cases "i < 0")
  case True
  then have e: "str_int i = ''-'' @ str_nat (nat (- i))" by (simp add: str_int_def)
  have "set (str_nat (nat (- i))) \<subseteq> set ''-0123456789''"
    by (rule subset_trans[OF set_str_nat]) simp
  then show ?thesis unfolding e by simp
next
  case False
  then have e: "str_int i = str_nat (nat i)" by (simp add: str_int_def)
  show ?thesis unfolding e by (rule subset_trans[OF set_str_nat]) simp
qed

lemma str_int_no_letter: "c \<notin> set ''-0123456789'' \<Longrightarrow> c \<notin> set (str_int i)"
  using set_str_int[of i] by blast

lemma str_int_values:
  "str_int 2 = ''2''" "str_int 3 = ''3''"
  "str_int 6 = ''6''" "str_int 9 = ''9''" "str_int 12 = ''12''"
  by (simp_all add: str_int_def str_nat.simps)

lemma not_sublist_char: "c \<in> set xs \<Longrightarrow> c \<notin> set ys \<Longrightarrow> \<not> sublist xs ys"
  by (meson set_mono_sublist subsetD)

lemma sublist_single: "sublist [c] ys \<longleftrightarrow> c \<in> set ys"
  by (induction ys) (auto simp: sublist_Cons_right)

subsection \<open>The functional segment\<close>

lemma FUNCTIONAL_TEMPLATE_stc:
  "sublist (''<li>Slice timing correction: '' @ kw_stc kw @ ''</li>'') (FUNCTIONAL_TEMPLATE kw)"
proof -
  have "FUNCTIONAL_TEMPLATE kw =
    (TAB @ TAB @ ''<details open>'' @ NL @
     TAB @ TAB @ ''<summary>Summary</summary>'' @ NL @
     TAB @ TAB @ ''<ul class=\"elem-desc\">'' @ NL @
     TAB @ TAB @ TAB @ ''<li>Original orientation: '' @ kw_ornt kw @ ''</li>'' @ NL @
     TAB @ TAB @ TAB @ ''<li>Repetition time (TR): '' @ kw_tr kw @ ''s</li>'' @ NL @
     TAB @ TAB @ TAB @ ''<li>Phase-encoding (PE) direction: '' @ kw_pedir kw @ ''</li>'' @ NL @
     TAB @ TAB @ TAB @ ''<li>'' @ kw_multiecho kw @ ''</li>'' @ NL @
     TAB @ TAB @ TAB) @
    (''<li>Slice timing correction: '' @ kw_stc kw @ ''</li>'') @
    (NL @
     TAB @ TAB @ TAB @ ''<li>Susceptibility distortion correction: '' @ kw_sdc kw @ ''</li>'' @ NL @
     TAB @ TAB @ TAB @ ''<li>Registration: '' @ kw_registration kw @ ''</li>'' @ NL @
     TAB @ TAB @ TAB @ ''<li>Non-steady-state volumes: '' @ kw_dummy_scan_desc kw @ ''</li>'' @ NL @
     TAB @ TAB @ ''</ul>'' @ NL @
     TAB @ TAB @ ''</details>'' @ NL)"
    by (simp add: FUNCTIONAL_TEMPLATE_def)
  then show ?thesis by (metis sublist_appendI)
qed

lemma FUNCTIONAL_TEMPLATE_multiecho:
  "sublist (''<li>'' @ kw_multiecho kw @ ''</li>'') (FUNCTIONAL_TEMPLATE kw)"
proof -
  have "FUNCTIONAL_TEMPLATE kw =
    (TAB @ TAB @ ''<details open>'' @ NL @
     TAB @ TAB @ ''<summary>Summary</summary>'' @ NL @
     TAB @ TAB @ ''<ul class=\"elem-desc\">'' @ NL @
     TAB @ TAB @ TAB @ ''<li>Original orientation: '' @ kw_ornt kw @ ''</li>'' @ NL @
     TAB @ TAB @ TAB @ ''<li>Repetition time (TR): '' @ kw_tr kw @ ''s</li>'' @ NL @
     TAB @ TAB @ TAB @ ''<li>Phase-encoding (PE) direction: '' @ kw_pedir kw @ ''</li>'' @ NL @
     TAB @ TAB @ TAB) @
    (''<li>'' @ kw_multiecho kw @ ''</li>'') @
    (NL @
     TAB @ TAB @ TAB @ ''<li>Slice timing correction: '' @ kw_stc kw @ ''</li>'' @ NL @
     TAB @ TAB @ TAB @ ''<li>Susceptibility distortion correction: '' @ kw_sdc kw @ ''</li>'' @ NL @
     TAB @ TAB @ TAB @ ''<li>Registration: '' @ kw_registration kw @ ''</li>'' @ NL @
     TAB @ TAB @ TAB @ ''<li>Non-steady-state volumes: '' @ kw_dummy_scan_desc kw @ ''</li>'' @ NL @
     TAB @ TAB @ ''</ul>'' @ NL @
     TAB @ TAB @ ''</details>'' @ NL)"
    by (simp add: FUNCTIONAL_TEMPLATE_def)
  then show ?thesis by (metis sublist_appendI)
qed

lemma FUNCTIONAL_TEMPLATE_registration:
  "sublist (''<li>Registration: '' @ kw_registration kw @ ''</li>'') (FUNCTIONAL_TEMPLATE kw)"
proof -
  have "FUNCTIONAL_TEMPLATE kw =
    (TAB @ TAB @ ''<details open>'' @ NL @
     TAB @ TAB @ ''<summary>Summary</summary>'' @ NL @
     TAB @ TAB @ ''<ul class=\"elem-desc\">'' @ NL @
     TAB @ TAB @ TAB @ ''<li>Original orientation: '' @ kw_ornt kw @ ''</li>'' @ NL @
     TAB @ TAB @ TAB @ ''<li>Repetition time (TR): '' @ kw_tr kw @ ''s</li>'' @ NL @
     TAB @ TAB @ TAB @ ''<li>Phase-encoding (PE) direction: '' @ kw_pedir kw @ ''</li>'' @ NL @
     TAB @ TAB @ TAB @ ''<li>'' @ kw_multiecho kw @ ''</li>'' @ NL @
     TAB @ TAB @ TAB @ ''<li>Slice timing correction: '' @ kw_stc kw @ ''</li>'' @ NL @
     TAB @ TAB @ TAB @ ''<li>Susceptibility distortion correction: '' @ kw_sdc kw @ ''</li>'' @ NL @
     TAB @ TAB @ TAB) @
    (''<li>Registration: '' @ kw_registration kw @ ''</li>'') @
    (NL @
     TAB @ TAB @ TAB @ ''<li>Non-steady-state volumes: '' @ kw_dummy_scan_desc kw @ ''</li>'' @ NL @
     TAB @ TAB @ ''</ul>'' @ NL @
     TAB @ TAB @ ''</details>'' @ NL)"
    by (simp add: FUNCTIONAL_TEMPLATE_def)
  then show ?thesis by (metis sublist_appendI)
qed

lemma FUNCTIONAL_TEMPLATE_dummy_scans:
  "sublist (''<li>Non-steady-state volumes: '' @ kw_dummy_scan_desc kw @ ''</li>'')
     (FUNCTIONAL_TEMPLATE kw)"
proof -
  have "FUNCTIONAL_TEMPLATE kw =
    (TAB @ TAB @ ''<details open>'' @ NL @
     TAB @ TAB @ ''<summary>Summary</summary>'' @ NL @
     TAB @ TAB @ ''<ul class=\"elem-desc\">'' @ NL @
     TAB @ TAB @ TAB @ ''<li>Original orientation: '' @ kw_ornt kw @ ''</li>'' @ NL @
     TAB @ TAB @ TAB @ ''<li>Repetition time (TR): '' @ kw_tr kw @ ''s</li>'' @ NL @
     TAB @ TAB @ TAB @ ''<li>Phase-encoding (PE) direction: '' @ kw_pedir kw @ ''</li>'' @ NL @
     TAB @ TAB @ TAB @ ''<li>'' @ kw_multiecho kw @ ''</li>'' @ NL @
     TAB @ TAB @ TAB @ ''<li>Slice timing correction: '' @ kw_stc kw @ ''</li>'' @ NL @
     TAB @ TAB @ TAB @ ''<li>Susceptibility distortion correction: '' @ kw_sdc kw @ ''</li>'' @ NL @
     TAB @ TAB @ TAB @ ''<li>Registration: '' @ kw_registration kw @ ''</li>'' @ NL @
     TAB @ TAB @ TAB) @
    (''<li>Non-steady-state volumes: '' @ kw_dummy_scan_desc kw @ ''</li>'') @
    (NL @
     TAB @ TAB @ ''</ul>'' @ NL @
     TAB @ TAB @ ''</details>'' @ NL)"
    by (simp add: FUNCTIONAL_TEMPLATE_def)
  then show ?thesis by (metis sublist_appendI)
qed

lemma FunctionalSummary_segment_Inr:
  assumes "FunctionalSummary_generate_segment fmt inputs = Inr (seg, ws)"
  shows "\<exists>kw. seg = FUNCTIONAL_TEMPLATE kw \<and>
           kw_stc kw = stc_text (slice_timing inputs) \<and>
           kw_registration kw =
             reg_text (registration_dof inputs) (registration inputs) (fallback inputs) \<and>
           kw_multiecho kw = multiecho_text (echo_idx inputs) \<and>
           kw_dummy_scan_desc kw =
             dummy_scan_msg (dummy_scans inputs) (algo_dummy_scans inputs)"
proof -
  from assms obtain pedir where
    "seg = FUNCTIONAL_TEMPLATE
       \<lparr>kw_ornt = orientation inputs, kw_tr = fmt (tr inputs), kw_pedir = pedir,
        kw_multiecho = multiecho_text (echo_idx inputs),
        kw_stc = stc_text (slice_timing inputs),
        kw_sdc = distortion_correction inputs,
        kw_registration =
          reg_text (registration_dof inputs) (registration inputs) (fallback inputs),
        kw_dummy_scan_desc =
          dummy_scan_msg (dummy_scans inputs) (algo_dummy_scans inputs)\<rparr>"
    by (auto simp: FunctionalSummary_generate_segment_def Let_def split: sum.splits prod.splits)
  then show ?thesis by (intro exI[of _ "\<lparr>kw_ornt = orientation inputs, kw_tr = fmt (tr inputs), kw_pedir = pedir,
        kw_multiecho = multiecho_text (echo_idx inputs),
        kw_stc = stc_text (slice_timing inputs),
        kw_sdc = distortion_correction inputs,
        kw_registration =
          reg_text (registration_dof inputs) (registration inputs) (fallback inputs),
        kw_dummy_scan_desc =
          dummy_scan_msg (dummy_scans inputs) (algo_dummy_scans inputs)\<rparr>"]) simp
qed

lemma FunctionalSummary_segment_lines:
  assumes "FunctionalSummary_generate_segment fmt inputs = Inr (seg, ws)"
  shows "sublist (''<li>Slice timing correction: '' @ stc_text (slice_timing inputs) @ ''</li>'') seg"
    and "sublist (''<li>Registration: '' @
           reg_text (registration_dof inputs) (registration inputs) (fallback inputs) @
           ''</li>'') seg"
    and "sublist (''<li>'' @ multiecho_text (echo_idx inputs) @ ''</li>'') seg"
    and "sublist (''<li>Non-steady-state volumes: '' @
           dummy_scan_msg (dummy_scans inputs) (algo_dummy_scans inputs) @ ''</li>'') seg"
proof -
  from FunctionalSummary_segment_Inr[OF assms] obtain kw where
    seg: "seg = FUNCTIONAL_TEMPLATE kw"
    and k: "kw_stc kw = stc_text (slice_timing inputs)"
      "kw_registration kw =
             reg_text (registration_dof inputs) (registration inputs) (fallback inputs)"
      "kw_multiecho kw = multiecho_text (echo_idx inputs)"
      "kw_dummy_scan_desc kw = dummy_scan_msg (dummy_scans inputs) (algo_dummy_scans inputs)"
    by blast
  show "sublist (''<li>Slice timing correction: '' @ stc_text (slice_timing inputs) @ ''</li>'') seg"
    unfolding seg k(1)[symmetric] by (rule FUNCTIONAL_TEMPLATE_stc)
  show "sublist (''<li>Registration: '' @
           reg_text (registration_dof inputs) (registration inputs) (fallback inputs) @
           ''</li>'') seg"
    unfolding seg k(2)[symmetric] by (rule FUNCTIONAL_TEMPLATE_registration)
  show "sublist (''<li>'' @ multiecho_text (echo_idx inputs) @ ''</li>'') seg"
    unfolding seg k(3)[symmetric] by (rule FUNCTIONAL_TEMPLATE_multiecho)
  show "sublist (''<li>Non-steady-state volumes: '' @
           dummy_scan_msg (dummy_scans inputs) (algo_dummy_scans inputs) @ ''</li>'') seg"
    unfolding seg k(4)[symmetric] by (rule FUNCTIONAL_TEMPLATE_dummy_scans)
qed

lemma flips_list:
  "flips = [(''Right'', ''Left''), (''Left'', ''Right''), (''Anterior'', ''Posterior''),
            (''Posterior'', ''Anterior''), (''Superior'', ''Inferior''), (''Inferior'', ''Superior'')]"
  by (simp add: flips_def axes_def)

lemma example_functional_texts:
  "stc_text (slice_timing example_functional) = ''Applied''"
  "reg_text (registration_dof example_functional) (registration example_functional)
     (fallback example_functional) =
     ''FreeSurfer <code>bbregister</code> (boundary-based registration, BBR) - 6 dof''"
  "multiecho_text (echo_idx example_functional) =
     ''Multi-echo EPI sequence: only echo 1 processed in single-echo mode.''"
  "dummy_scan_msg (dummy_scans example_functional) (algo_dummy_scans example_functional) =
     ''<undefined> (Warning: 3 automatically detected)''"
  "get_world_pedir (orientation example_functional) (pe_direction example_functional) =
     Inr (''Anterior-Posterior'', [])"
  by (simp_all add: example_functional_def stc_text_def reg_text_def reg_table_def
      str_int_values multiecho_text_def dummy_scan_msg_def dummy_scans_eq_def
      str_dummy_scans_def str_algo_dummy_scans_def get_world_pedir_def ax_idcs_def
      str_index_def flips_list flip_at_def)

lemma example_functional_segment:
  "FunctionalSummary_generate_segment (\<lambda>t. ''2'') example_functional =
     Inr (FUNCTIONAL_TEMPLATE example_functional_kwargs, [])"
  unfolding FunctionalSummary_generate_segment_def Let_def example_functional_texts
  by (simp add: example_functional_kwargs_def example_functional_def)

subsection \<open>Slice-timing text\<close>

text \<open>
  C6. The slice-timing text is \<open>Applied\<close> for \<^verbatim>\<open>True\<close>, \<open>Not applied\<close> for \<^verbatim>\<open>False\<close>,
  \<open>Skipped (too few volumes)\<close> for \<^verbatim>\<open>'TooShort'\<close>, and \<open>n/a\<close> when the input is undefined;
  every generated segment carries the text of its input in the slice-timing line.
\<close>

theorem stc_text_table:
  "stc_text (Some ST_True) = ''Applied'' \<and>
   stc_text (Some ST_False) = ''Not applied'' \<and>
   stc_text (Some ST_TooShort) = ''Skipped (too few volumes)'' \<and>
   stc_text None = ''n/a'' \<and>
   (\<forall>fmt inputs seg ws.
      FunctionalSummary_generate_segment fmt inputs = Inr (seg, ws) \<longrightarrow>
      sublist (''<li>Slice timing correction: '' @ stc_text (slice_timing inputs) @ ''</li>'') seg)"
  using FunctionalSummary_segment_lines(1) by (simp add: stc_text_def)

theorem stc_text_table_witness:
  "FunctionalSummary_generate_segment (\<lambda>t. ''2'') example_functional =
     Inr (FUNCTIONAL_TEMPLATE example_functional_kwargs, []) \<and>
   slice_timing example_functional = Some ST_True \<and>
   sublist ''<li>Slice timing correction: Applied</li>''
     (FUNCTIONAL_TEMPLATE example_functional_kwargs)"
proof -
  from stc_text_table example_functional_segment
  have "sublist (''<li>Slice timing correction: '' @
                 stc_text (slice_timing example_functional) @ ''</li>'')
          (FUNCTIONAL_TEMPLATE example_functional_kwargs)"
    by blast
  then have "sublist ''<li>Slice timing correction: Applied</li>''
     (FUNCTIONAL_TEMPLATE example_functional_kwargs)"
    by (simp add: example_functional_texts)
  moreover have "slice_timing example_functional = Some ST_True"
    by (simp add: example_functional_def)
  ultimately show ?thesis using example_functional_segment by blast
qed

subsection \<open>Registration text\<close>

lemma reg_text_shapes:
  "reg_text dof FSL False =
     ''FSL <code>flirt</code> with boundary-based registration (BBR) metric - '' @ str_int dof @ '' dof''"
  "reg_text dof FreeSurfer False =
     ''FreeSurfer <code>bbregister</code> (boundary-based registration, BBR) - '' @ str_int dof @ '' dof''"
  "reg_text dof FreeSurfer True = ''FreeSurfer <code>mri_coreg</code> - '' @ str_int dof @ '' dof''"
  "reg_text dof FSL True = ''FSL <code>flirt</code> rigid registration - 6 dof''"
  by (simp_all add: reg_text_def reg_table_def)

text \<open>
  The claim C1 as stated fails: with FSL, the fallback flag set and 9 degrees of freedom
  configured, the selected text is the fixed rigid-registration text, which has no 9 in it.
\<close>

theorem reg_text_FSL_fallback_no_dof: "\<not> sublist (str_int 9) (reg_text 9 FSL True)"
  unfolding reg_text_shapes str_int_values
  by (rule not_sublist_char[of "CHR ''9''"]) simp_all

text \<open>
  C1, amended. For (FSL, no fallback) and for FreeSurfer with either fallback flag, the
  registration text contains the configured degrees of freedom in decimal. For
  (FSL, fallback) the text is the constant \<open>FSL <code>flirt</code> rigid registration - 6 dof\<close>
  whatever is configured; among the configured values 6, 9 and 12 it contains the
  configured value only for 6. Every generated segment carries the selected text in
  the registration line.
\<close>

theorem reg_text_contains_dof:
  "sublist (str_int dof) (reg_text dof FSL False) \<and>
   sublist (str_int dof) (reg_text dof FreeSurfer False) \<and>
   sublist (str_int dof) (reg_text dof FreeSurfer True) \<and>
   reg_text dof FSL True = ''FSL <code>flirt</code> rigid registration - 6 dof'' \<and>
   (dof \<in> {6, 9, 12} \<longrightarrow> (sublist (str_int dof) (reg_text dof FSL True) \<longleftrightarrow> dof = 6)) \<and>
   (\<forall>fmt inputs seg ws.
      FunctionalSummary_generate_segment fmt inputs = Inr (seg, ws) \<longrightarrow>
      sublist (''<li>Registration: '' @
               reg_text (registration_dof inputs) (registration inputs) (fallback inputs) @
               ''</li>'') seg)"
proof -
  have 1: "sublist (str_int dof) (reg_text dof FSL False)"
    unfolding reg_text_shapes by (rule sublist_appendI)
  have 2: "sublist (str_int dof) (reg_text dof FreeSurfer False)"
    unfolding reg_text_shapes by (rule sublist_appendI)
  have 3: "sublist (str_int dof) (reg_text dof FreeSurfer True)"
    unfolding reg_text_shapes by (rule sublist_appendI)
  have 6: "sublist (str_int 6) (reg_text 6 FSL True)"
    unfolding reg_text_shapes str_int_values sublist_single by simp
  have 9: "\<not> sublist (str_int 9) (reg_text 9 FSL True)"
    unfolding reg_text_shapes str_int_values sublist_single by simp
  have 12: "\<not> sublist (str_int 12) (reg_text 12 FSL True)"
    unfolding reg_text_shapes str_int_values
    by (rule not_sublist_char[of "CHR ''1''"]) simp_all
  have 5: "dof \<in> {6, 9, 12} \<longrightarrow> (sublist (str_int dof) (reg_text dof FSL True) \<longleftrightarrow> dof = 6)"
    using 6 9 12 by auto
  have 7: "\<forall>fmt inputs seg ws.
      FunctionalSummary_generate_segment fmt inputs = Inr (seg, ws) \<longrightarrow>
      sublist (''<li>Registration: '' @
               reg_text (registration_dof inputs) (registration inputs) (fallback inputs) @
               ''</li>'') seg"
    using FunctionalSummary_segment_lines(2) by blast
  from 1 2 3 5 7 show ?thesis by (simp add: reg_text_shapes(4))
qed

theorem reg_text_contains_dof_witness:
  "(12::int) \<in> {6, 9, 12} \<and> sublist (str_int 12) (reg_text 12 FreeSurfer True) \<and>
   \<not> sublist (str_int 12) (reg_text 12 FSL True) \<and>
   FunctionalSummary_generate_segment (\<lambda>t. ''2'') example_functional =
     Inr (FUNCTIONAL_TEMPLATE example_functional_kwargs, []) \<and>
   sublist
     ''<li>Registration: FreeSurfer <code>bbregister</code> (boundary-based registration, BBR) - 6 dof</li>''
     (FUNCTIONAL_TEMPLATE example_functional_kwargs)"
proof -
  have m: "(12::int) \<in> {6, 9, 12}" by simp
  from reg_text_contains_dof [of 12]
  have a: "sublist (str_int 12) (reg_text 12 FreeSurfer True)"
    and b: "(12::int) \<in> {6, 9, 12} \<longrightarrow>
            (sublist (str_int 12) (reg_text 12 FSL True) \<longleftrightarrow> (12::int) = 6)"
    and c: "\<forall>fmt inputs seg ws.
      FunctionalSummary_generate_segment fmt inputs = Inr (seg, ws) \<longrightarrow>
      sublist (''<li>Registration: '' @
               reg_text (registration_dof inputs) (registration inputs) (fallback inputs) @
               ''</li>'') seg"
    by blast+
  from b m have n: "\<not> sublist (str_int 12) (reg_text 12 FSL True)" by simp
  from c example_functional_segment
  have "sublist (''<li>Registration: '' @
               reg_text (registration_dof example_functional) (registration example_functional)
                 (fallback example_functional) @ ''</li>'')
          (FUNCTIONAL_TEMPLATE example_functional_kwargs)"
    by blast
  then have s: "sublist
     ''<li>Registration: FreeSurfer <code>bbregister</code> (boundary-based registration, BBR) - 6 dof</li>''
     (FUNCTIONAL_TEMPLATE example_functional_kwargs)"
    by (simp add: example_functional_texts)
  from m a n s example_functional_segment show ?thesis by blast
qed

subsection \<open>Dummy-scan message\<close>

lemma dummy_scan_msg_shapes:
  "dummy_scan_msg (Defined (Some n)) (Defined n) =
     str_int n @ '' (Confirmed: '' @ str_int n @ '' automatically detected)''"
  "u \<noteq> n \<Longrightarrow> dummy_scan_msg (Defined (Some u)) (Defined n) =
     str_int u @ '' (Warning: '' @ str_int n @ '' automatically detected)''"
  "dummy_scan_msg (Defined None) (Defined n) = str_int n"
  by (simp_all add: dummy_scan_msg_def dummy_scans_eq_def str_dummy_scans_def
      str_algo_dummy_scans_def str_int_opt_def)

text \<open>
  C2. With no user count supplied the message should be the detected count alone, as the
  comments of the three branches have it and as it is for \<^verbatim>\<open>None\<close>. For the input that
  was never set it is not: \<^verbatim>\<open>Undefined\<close> differs from the detected count and is not
  \<^verbatim>\<open>None\<close>, so the branch of the user-specified, unequal count is taken, and the
  segment carries \<open><undefined> (Warning: 3 automatically detected)\<close> where the count alone,
  \<open>3\<close>, belongs.
\<close>

theorem dummy_scan_msg_unset:
  "dummy_scans example_functional = Undefined \<and>
   algo_dummy_scans example_functional = Defined 3 \<and>
   dummy_scan_msg Undefined (Defined 3) = ''<undefined> (Warning: 3 automatically detected)'' \<and>
   dummy_scan_msg (Defined None) (Defined 3) = ''3'' \<and>
   FunctionalSummary_generate_segment (\<lambda>t. ''2'') example_functional =
     Inr (FUNCTIONAL_TEMPLATE example_functional_kwargs, []) \<and>
   sublist ''<li>Non-steady-state volumes: <undefined> (Warning: 3 automatically detected)</li>''
     (FUNCTIONAL_TEMPLATE example_functional_kwargs)"
proof -
  have a: "dummy_scans example_functional = Undefined"
    "algo_dummy_scans example_functional = Defined 3"
    by (simp_all add: example_functional_def)
  have b: "dummy_scan_msg Undefined (Defined 3) = ''<undefined> (Warning: 3 automatically detected)''"
    using example_functional_texts(4) by (simp add: a)
  have c: "dummy_scan_msg (Defined None) (Defined 3) = ''3''"
    by (simp add: dummy_scan_msg_shapes str_int_values)
  have "sublist (''<li>Non-steady-state volumes: '' @
           dummy_scan_msg (dummy_scans example_functional) (algo_dummy_scans example_functional) @
           ''</li>'') (FUNCTIONAL_TEMPLATE example_functional_kwargs)"
    by (rule FunctionalSummary_segment_lines(4)[OF example_functional_segment])
  then have d: "sublist
     ''<li>Non-steady-state volumes: <undefined> (Warning: 3 automatically detected)</li>''
     (FUNCTIONAL_TEMPLATE example_functional_kwargs)"
    by (simp add: example_functional_texts)
  from a b c d example_functional_segment show ?thesis by blast
qed

lemma sublist_Confirmed: "sublist ''Confirmed'' (a @ '' (Confirmed: '' @ b)"
proof -
  have "a @ '' (Confirmed: '' @ b = (a @ '' ('') @ ''Confirmed'' @ ('': '' @ b)" by simp
  then show ?thesis by (metis sublist_appendI)
qed

lemma sublist_Warning: "sublist ''Warning'' (a @ '' (Warning: '' @ b)"
proof -
  have "a @ '' (Warning: '' @ b = (a @ '' ('') @ ''Warning'' @ ('': '' @ b)" by simp
  then show ?thesis by (metis sublist_appendI)
qed

text \<open>
  With both counts set the message has one of three forms, which exclude each other: a
  \<open>Confirmed\<close> clause exactly when the user count equals the detected count, a \<open>Warning\<close>
  clause exactly when a user count is given and differs, and the detected count alone
  when the user count is \<^verbatim>\<open>None\<close>.
\<close>

lemma dummy_scan_msg_set_forms:
  "(\<forall>n. dummy_scan_msg (Defined (Some n)) (Defined n) =
          str_int n @ '' (Confirmed: '' @ str_int n @ '' automatically detected)'') \<and>
   (\<forall>u n. u \<noteq> n \<longrightarrow> dummy_scan_msg (Defined (Some u)) (Defined n) =
          str_int u @ '' (Warning: '' @ str_int n @ '' automatically detected)'') \<and>
   (\<forall>n. dummy_scan_msg (Defined None) (Defined n) = str_int n) \<and>
   (\<forall>d n. sublist ''Confirmed'' (dummy_scan_msg (Defined d) (Defined n)) \<longleftrightarrow> d = Some n) \<and>
   (\<forall>d n. sublist ''Warning'' (dummy_scan_msg (Defined d) (Defined n)) \<longleftrightarrow>
            (d \<noteq> None \<and> d \<noteq> Some n))"
proof -
  have C: "CHR ''C'' \<notin> set (str_int i)" and W: "CHR ''W'' \<notin> set (str_int i)" for i
    by (rule str_int_no_letter, simp)+
  have bareC: "\<not> sublist ''Confirmed'' (dummy_scan_msg (Defined None) (Defined n))" for n
    unfolding dummy_scan_msg_shapes by (rule not_sublist_char[of "CHR ''C''"]) (simp_all add: C)
  have bareW: "\<not> sublist ''Warning'' (dummy_scan_msg (Defined None) (Defined n))" for n
    unfolding dummy_scan_msg_shapes by (rule not_sublist_char[of "CHR ''W''"]) (simp_all add: W)
  have confC: "sublist ''Confirmed'' (dummy_scan_msg (Defined (Some n)) (Defined n))" for n
    unfolding dummy_scan_msg_shapes by (rule sublist_Confirmed)
  have confW: "\<not> sublist ''Warning'' (dummy_scan_msg (Defined (Some n)) (Defined n))" for n
    unfolding dummy_scan_msg_shapes by (rule not_sublist_char[of "CHR ''W''"]) (simp_all add: W)
  have warnW: "sublist ''Warning'' (dummy_scan_msg (Defined (Some u)) (Defined n))"
    if "u \<noteq> n" for u n
    unfolding dummy_scan_msg_shapes(2)[OF that] by (rule sublist_Warning)
  have warnC: "\<not> sublist ''Confirmed'' (dummy_scan_msg (Defined (Some u)) (Defined n))"
    if "u \<noteq> n" for u n
    unfolding dummy_scan_msg_shapes(2)[OF that]
    by (rule not_sublist_char[of "CHR ''C''"]) (simp_all add: C)
  have 4: "sublist ''Confirmed'' (dummy_scan_msg (Defined d) (Defined n)) \<longleftrightarrow> d = Some n" for d n
  proof (cases d)
    case None
    then show ?thesis using bareC by simp
  next
    case (Some u)
    then show ?thesis using confC[of n] warnC[of u n] by (cases "u = n") simp_all
  qed
  have 5: "sublist ''Warning'' (dummy_scan_msg (Defined d) (Defined n)) \<longleftrightarrow>
             (d \<noteq> None \<and> d \<noteq> Some n)" for d n
  proof (cases d)
    case None
    then show ?thesis using bareW by simp
  next
    case (Some u)
    then show ?thesis using confW[of n] warnW[of u n] by (cases "u = n") simp_all
  qed
  show ?thesis using dummy_scan_msg_shapes 4 5 by blast
qed

subsection \<open>Echo text\<close>

text \<open>
  C3. The echo text is decided by the number of echo identifiers alone: one identifier
  gives the \<open>only echo ... processed in single-echo mode\<close> text (with that identifier),
  more than two give \<open>Multi-echo EPI sequence: N echoes.\<close>, and exactly two give the default
  \<open>Single-echo EPI sequence.\<close> Two lists of the same length other than one give the same text.
  Every generated segment carries the text of its echo identifiers.
\<close>

theorem multiecho_text_by_length:
  "(\<forall>es. length es = 1 \<longrightarrow> multiecho_text es =
      ''Multi-echo EPI sequence: only echo '' @ es ! 0 @ '' processed in single-echo mode.'') \<and>
   (\<forall>es. length es > 2 \<longrightarrow> multiecho_text es =
      ''Multi-echo EPI sequence: '' @ str_nat (length es) @ '' echoes.'') \<and>
   (\<forall>es. length es = 2 \<longrightarrow> multiecho_text es = ''Single-echo EPI sequence.'') \<and>
   (\<forall>es es'. length es = length es' \<and> length es \<noteq> 1 \<longrightarrow> multiecho_text es = multiecho_text es') \<and>
   (\<forall>fmt inputs seg ws.
      FunctionalSummary_generate_segment fmt inputs = Inr (seg, ws) \<longrightarrow>
      sublist (''<li>'' @ multiecho_text (echo_idx inputs) @ ''</li>'') seg)"
proof -
  have a: "(\<forall>es. length es = 1 \<longrightarrow> multiecho_text es =
      ''Multi-echo EPI sequence: only echo '' @ es ! 0 @ '' processed in single-echo mode.'') \<and>
   (\<forall>es. length es > 2 \<longrightarrow> multiecho_text es =
      ''Multi-echo EPI sequence: '' @ str_nat (length es) @ '' echoes.'') \<and>
   (\<forall>es. length es = 2 \<longrightarrow> multiecho_text es = ''Single-echo EPI sequence.'') \<and>
   (\<forall>es es'. length es = length es' \<and> length es \<noteq> 1 \<longrightarrow> multiecho_text es = multiecho_text es')"
    by (simp add: multiecho_text_def Let_def)
  have b: "\<forall>fmt inputs seg ws.
      FunctionalSummary_generate_segment fmt inputs = Inr (seg, ws) \<longrightarrow>
      sublist (''<li>'' @ multiecho_text (echo_idx inputs) @ ''</li>'') seg"
    using FunctionalSummary_segment_lines(3) by blast
  from a b show ?thesis by blast
qed

theorem multiecho_text_by_length_witness:
  "length [''1''] = 1 \<and> length [''1'', ''2''] = 2 \<and> length [''1'', ''2'', ''3''] > 2 \<and>
   multiecho_text [''1''] =
     ''Multi-echo EPI sequence: only echo 1 processed in single-echo mode.'' \<and>
   multiecho_text [''1'', ''2''] = ''Single-echo EPI sequence.'' \<and>
   multiecho_text [''1'', ''2'', ''3''] = ''Multi-echo EPI sequence: 3 echoes.'' \<and>
   multiecho_text [''1'', ''2''] = multiecho_text [''a'', ''b''] \<and>
   FunctionalSummary_generate_segment (\<lambda>t. ''2'') example_functional =
     Inr (FUNCTIONAL_TEMPLATE example_functional_kwargs, []) \<and>
   sublist ''<li>Multi-echo EPI sequence: only echo 1 processed in single-echo mode.</li>''
     (FUNCTIONAL_TEMPLATE example_functional_kwargs)"
proof -
  have s3: "str_nat 3 = ''3''" by (simp add: str_nat.simps)
  have l1: "length [''1''] = 1" and l2: "length [''1'', ''2''] = 2"
    and l3: "length [''1'', ''2'', ''3''] > 2"
    and l4: "length [''1'', ''2''] = length [''a'', ''b''] \<and> length [''1'', ''2''] \<noteq> 1"
    by simp_all
  from multiecho_text_by_length l1
  have a: "multiecho_text [''1''] =
      ''Multi-echo EPI sequence: only echo '' @ [''1''] ! 0 @ '' processed in single-echo mode.''"
    by blast
  from multiecho_text_by_length l2
  have b: "multiecho_text [''1'', ''2''] = ''Single-echo EPI sequence.''" by blast
  from multiecho_text_by_length l3
  have c: "multiecho_text [''1'', ''2'', ''3''] =
      ''Multi-echo EPI sequence: '' @ str_nat (length [''1'', ''2'', ''3'']) @ '' echoes.''"
    by blast
  from multiecho_text_by_length l4
  have d: "multiecho_text [''1'', ''2''] = multiecho_text [''a'', ''b'']" by blast
  have c': "multiecho_text [''1'', ''2'', ''3''] = ''Multi-echo EPI sequence: 3 echoes.''"
  proof -
    have l: "length [''1'', ''2'', ''3''] = (3::nat)" by simp
    show ?thesis unfolding c l s3 by simp
  qed
  have a': "multiecho_text [''1''] =
     ''Multi-echo EPI sequence: only echo 1 processed in single-echo mode.''"
    unfolding a by simp
  from multiecho_text_by_length example_functional_segment
  have "sublist (''<li>'' @ multiecho_text (echo_idx example_functional) @ ''</li>'')
          (FUNCTIONAL_TEMPLATE example_functional_kwargs)"
    by blast
  then have e: "sublist
     ''<li>Multi-echo EPI sequence: only echo 1 processed in single-echo mode.</li>''
     (FUNCTIONAL_TEMPLATE example_functional_kwargs)"
    by (simp add: example_functional_texts)
  from a' b c' d l1 l2 l3 e example_functional_segment show ?thesis by blast
qed

subsection \<open>World direction of phase encoding\<close>

lemma find_flips_None:
  "x \<notin> set ''RLAPSI'' \<Longrightarrow> find (\<lambda>flip. prefix [x] (flip_at flip b)) flips = None"
  by (simp add: flips_list flip_at_def)

lemma find_flips_L:
  "find (\<lambda>flip. prefix ''L'' (flip_at flip True)) flips = Some (''Left'', ''Right'')"
  by (simp add: flips_list flip_at_def)

lemma ax_idcs_bound: "ax_idcs c = Inr idx \<Longrightarrow> idx < 3"
  by (auto simp: ax_idcs_def split: if_splits)

lemma ax_idcs_unmapped: "c \<notin> set ''ijk'' \<Longrightarrow> ax_idcs c = Inl KeyError"
  by (simp add: ax_idcs_def)

lemma get_world_pedir_indexed:
  "ax_idcs c = Inr idx \<Longrightarrow> idx < length ornt \<Longrightarrow> \<exists>r. get_world_pedir ornt (Some (c # sign)) = Inr r"
  by (simp add: get_world_pedir_def str_index_def Let_def split: option.splits)

text \<open>
  The claim C4 as stated fails: a direction whose axis letter is not mapped, as \<open>x\<close>, is
  unmatched, and on the orientation \<open>LAS\<close> the lookup of its axis raises \<^verbatim>\<open>KeyError\<close> where
  the claim has the fallback text returned and no error raised.
\<close>

theorem get_world_pedir_unmapped_axis: "get_world_pedir ''LAS'' (Some ''x'') = Inl KeyError"
  by (simp add: get_world_pedir_def ax_idcs_def)

text \<open>
  C4, amended. For an orientation that begins with \<open>L\<close> and the direction \<open>i-\<close> the result
  is \<open>Left-Right\<close>, with no warning. For any orientation, an unspecified (\<^verbatim>\<open>None\<close>)
  direction gives the fallback text, which begins \<open>Could not be determined\<close>, and one
  warning. So does a direction on the axis \<open>i\<close>, \<open>j\<close> or \<open>k\<close> whose letter of the
  orientation is none of R, L, A, P, S, I. On an orientation triple the six directions
  of the interface raise no error. A direction whose axis letter is not \<open>i\<close>, \<open>j\<close> or
  \<open>k\<close> raises \<^verbatim>\<open>KeyError\<close>, for any orientation.
\<close>

theorem get_world_pedir_fallback:
  "(\<forall>rest. get_world_pedir (CHR ''L'' # rest) (Some ''i-'') = Inr (''Left-Right'', [])) \<and>
   (\<forall>ornt. get_world_pedir ornt None = Inr (pedir_fallback, [pedir_warning ornt None])) \<and>
   (\<forall>ornt c sign idx. ax_idcs c = Inr idx \<and> idx < length ornt \<and> ornt ! idx \<notin> set ''RLAPSI''
      \<longrightarrow> get_world_pedir ornt (Some (c # sign)) =
            Inr (pedir_fallback, [pedir_warning ornt (Some (c # sign))])) \<and>
   (\<forall>ornt pe. length ornt = 3 \<and> pe \<in> set [''i'', ''i-'', ''j'', ''j-'', ''k'', ''k-'']
      \<longrightarrow> (\<exists>r. get_world_pedir ornt (Some pe) = Inr r)) \<and>
   (\<forall>ornt c sign. c \<notin> set ''ijk''
      \<longrightarrow> get_world_pedir ornt (Some (c # sign)) = Inl KeyError) \<and>
   prefix ''Could not be determined'' pedir_fallback"
proof -
  have 1: "get_world_pedir (CHR ''L'' # rest) (Some ''i-'') = Inr (''Left-Right'', [])" for rest
    by (simp add: get_world_pedir_def ax_idcs_def str_index_def find_flips_L)
  have 2: "get_world_pedir ornt None = Inr (pedir_fallback, [pedir_warning ornt None])" for ornt
    by (simp add: get_world_pedir_def)
  have 3: "get_world_pedir ornt (Some (c # sign)) =
            Inr (pedir_fallback, [pedir_warning ornt (Some (c # sign))])"
    if "ax_idcs c = Inr idx" "idx < length ornt" "ornt ! idx \<notin> set ''RLAPSI''"
    for ornt c sign idx
    using that find_flips_None[OF that(3)]
    by (simp add: get_world_pedir_def str_index_def)
  have 4: "\<exists>r. get_world_pedir ornt (Some pe) = Inr r"
    if l: "length ornt = 3" and p: "pe \<in> set [''i'', ''i-'', ''j'', ''j-'', ''k'', ''k-'']"
    for ornt pe
  proof -
    from p obtain c sign idx where pe: "pe = c # sign" and a: "ax_idcs c = Inr idx"
      by (auto simp: ax_idcs_def)
    from ax_idcs_bound[OF a] l have "idx < length ornt" by simp
    from get_world_pedir_indexed[OF a this] show ?thesis unfolding pe .
  qed
  have 5: "get_world_pedir ornt (Some (c # sign)) = Inl KeyError"
    if "c \<notin> set ''ijk''" for ornt c sign
    using ax_idcs_unmapped[OF that] by (simp add: get_world_pedir_def)
  have 6: "prefix ''Could not be determined'' pedir_fallback"
    by (simp add: pedir_fallback_def)
  from 1 2 3 4 5 6 show ?thesis by blast
qed

theorem get_world_pedir_fallback_witness:
  "ax_idcs CHR ''j'' = Inr 1 \<and> 1 < length ''LXS'' \<and> ''LXS'' ! 1 \<notin> set ''RLAPSI'' \<and>
   get_world_pedir ''LXS'' (Some ''j-'') =
     Inr (''Could not be determined - assuming Anterior-Posterior'',
          [''Cannot determine world direction of phase encoding. Orientation: LXS; PE dir: j-'']) \<and>
   length ''LAS'' = 3 \<and> ''k-'' \<in> set [''i'', ''i-'', ''j'', ''j-'', ''k'', ''k-''] \<and>
   get_world_pedir ''LAS'' (Some ''k-'') = Inr (''Superior-Inferior'', []) \<and>
   CHR ''x'' \<notin> set ''ijk'' \<and>
   get_world_pedir ''LAS'' (Some ''x'') = Inl KeyError \<and>
   get_world_pedir ''LAS'' (Some ''i-'') = Inr (''Left-Right'', [])"
proof -
  have h: "ax_idcs CHR ''j'' = Inr 1 \<and> 1 < length ''LXS'' \<and> ''LXS'' ! 1 \<notin> set ''RLAPSI''"
    by (simp add: ax_idcs_def)
  have k: "length ''LAS'' = 3 \<and> ''k-'' \<in> set [''i'', ''i-'', ''j'', ''j-'', ''k'', ''k-'']"
    by simp
  have x: "CHR ''x'' \<notin> set ''ijk''" by simp
  from get_world_pedir_fallback h
  have a: "get_world_pedir ''LXS'' (Some ''j-'') =
             Inr (pedir_fallback, [pedir_warning ''LXS'' (Some ''j-'')])"
    by blast
  from get_world_pedir_fallback k
  have "\<exists>r. get_world_pedir ''LAS'' (Some ''k-'') = Inr r" by blast
  moreover have "\<And>r. get_world_pedir ''LAS'' (Some ''k-'') = Inr r \<Longrightarrow> r = (''Superior-Inferior'', [])"
    by (simp add: get_world_pedir_def ax_idcs_def str_index_def flips_list flip_at_def)
  ultimately have b: "get_world_pedir ''LAS'' (Some ''k-'') = Inr (''Superior-Inferior'', [])"
    by blast
  from get_world_pedir_fallback x
  have c: "get_world_pedir ''LAS'' (Some ''x'') = Inl KeyError" by blast
  from get_world_pedir_fallback
  have d: "get_world_pedir ''LAS'' (Some ''i-'') = Inr (''Left-Right'', [])" by blast
  have a': "get_world_pedir ''LXS'' (Some ''j-'') =
     Inr (''Could not be determined - assuming Anterior-Posterior'',
          [''Cannot determine world direction of phase encoding. Orientation: LXS; PE dir: j-''])"
    unfolding a by (simp add: pedir_fallback_def pedir_warning_def)
  from h k x a' b c d show ?thesis by blast
qed

subsection \<open>Groups of the labeled histogram\<close>

lemma filter_implicit_labels:
  "filter (\<lambda>l. 0 < l) (implicit_labels data) = replicate (length (filter positive data)) 1"
  by (induction data) (simp_all add: implicit_labels_def)

lemma remdups_replicate: "remdups (replicate n x) = (if n = 0 then [] else [x])"
  by (induction n) auto

lemma uniq_implicit_labels:
  "uniq_labels (implicit_labels data) = (if \<exists>v\<in>set data. positive v then [1] else [])"
proof (cases "\<exists>v\<in>set data. positive v")
  case True
  then have "filter positive data \<noteq> []" by (simp add: filter_empty_conv)
  then have "length (filter positive data) \<noteq> 0" by simp
  then have "remdups (replicate (length (filter positive data)) (1::nat)) = [1]"
    by (simp only: remdups_replicate if_False)
  with True show ?thesis by (simp add: uniq_labels_def filter_implicit_labels)
next
  case False
  then have "filter positive data = []" by (simp add: filter_empty_conv)
  with False show ?thesis by (simp add: uniq_labels_def filter_implicit_labels)
qed

lemma select_implicit_one:
  "select_label data (implicit_labels data) 1 = filter positive data"
  by (induction data) (simp_all add: select_label_def implicit_labels_def)

text \<open>
  The claim C8 as stated fails: for an image with no strictly positive value and no label
  image the label array is zero everywhere, and no group at all is formed.
\<close>

theorem LabeledHistogram_no_positive_voxel:
  "LabeledHistogram_rois [Finite 0, Finite (- 1)] None [] = []"
  by (simp add: LabeledHistogram_rois_def uniq_implicit_labels positive_def)

text \<open>
  C8, amended. With no label image the label array is the indicator of the strictly
  positive values of the image. With no mapping either, the groups are: exactly one
  group, keyed by the label 1 and holding the positive values, when the image has a
  strictly positive value, and no group otherwise.
\<close>

theorem LabeledHistogram_implicit_labels:
  "implicit_labels data = map (\<lambda>v. if positive v then 1 else 0) data \<and>
   LabeledHistogram_rois data None [] =
     (if \<exists>v\<in>set data. positive v then [(LabelKey 1, filter positive data)] else [])"
proof (cases "\<exists>v\<in>set data. positive v")
  case True
  then show ?thesis
    by (simp add: LabeledHistogram_rois_def uniq_implicit_labels select_implicit_one
        implicit_labels_def[symmetric])
next
  case False
  then show ?thesis
    by (simp add: LabeledHistogram_rois_def uniq_implicit_labels implicit_labels_def[symmetric])
qed

theorem LabeledHistogram_implicit_labels_witness:
  "(\<exists>v\<in>set [Finite 0, Finite 2, NaN, PosInf]. positive v) \<and>
   implicit_labels [Finite 0, Finite 2, NaN, PosInf] = [0, 1, 0, 1] \<and>
   LabeledHistogram_rois [Finite 0, Finite 2, NaN, PosInf] None [] =
     [(LabelKey 1, [Finite 2, PosInf])]"
proof -
  have p: "\<exists>v\<in>set [Finite 0, Finite 2, NaN, PosInf]. positive v"
    by (simp add: positive_def)
  from LabeledHistogram_implicit_labels [of "[Finite 0, Finite 2, NaN, PosInf]"]
  have a: "implicit_labels [Finite 0, Finite 2, NaN, PosInf] =
             map (\<lambda>v. if positive v then 1 else 0) [Finite 0, Finite 2, NaN, PosInf]"
    and b: "LabeledHistogram_rois [Finite 0, Finite 2, NaN, PosInf] None [] =
     (if \<exists>v\<in>set [Finite 0, Finite 2, NaN, PosInf]. positive v
      then [(LabelKey 1, filter positive [Finite 0, Finite 2, NaN, PosInf])] else [])"
    by blast+
  have a': "implicit_labels [Finite 0, Finite 2, NaN, PosInf] = [0, 1, 0, 1]"
    unfolding a by (simp add: positive_def)
  have b': "LabeledHistogram_rois [Finite 0, Finite 2, NaN, PosInf] None [] =
     [(LabelKey 1, [Finite 2, PosInf])]"
    unfolding b by (simp add: positive_def)
  from p a' b' show ?thesis by blast
qed

subsection \<open>The subject segment\<close>

lemma SUBJECT_TEMPLATE_status:
  "sublist (''<li>Surface reconstruction status: '' @ kw_recon_status kw @ ''</li>'')
     (SUBJECT_TEMPLATE kw)"
proof -
  have "SUBJECT_TEMPLATE kw =
    (TAB @ ''<ul class=\"elem-desc\">'' @ NL @
     TAB @ TAB @ ''<li>Subject ID: '' @ kw_subject_id kw @ ''</li>'' @ NL @
     TAB @ TAB @ ''<li>Session ID: '' @ kw_session_id kw @ ''</li>'' @ NL @
     TAB @ TAB @ ''<li>Chronological age (months): '' @ kw_age kw @ ''</li>'' @ NL @
     TAB @ TAB @ ''<li>Structural images: '' @ kw_num_t1w kw @ '' T1-weighted, '' @
       kw_num_t2w kw @ '' T2-weighted</li>'' @ NL @
     TAB @ TAB @ ''<li>Anatomical reference space: '' @ kw_anat_ref kw @ ''<li>'' @ NL @
     TAB @ TAB @ ''<li>Functional series: '' @ kw_n_bold kw @ ''</li>'' @ NL @
     kw_tasks kw @ NL @
     TAB @ TAB @ ''<li>Standard output spaces: '' @ kw_std_spaces kw @ ''</li>'' @ NL @
     TAB @ TAB @ ''<li>Non-standard output spaces: '' @ kw_nstd_spaces kw @ ''</li>'' @ NL @
     TAB @ TAB @ ''<li>Surface reconstruction method: '' @ kw_recon_method kw @ ''</li>'' @ NL @
     TAB @ TAB) @
    (''<li>Surface reconstruction status: '' @ kw_recon_status kw @ ''</li>'') @
    (NL @ TAB @ ''</ul>'' @ NL)"
    by (simp add: SUBJECT_TEMPLATE_def)
  then show ?thesis by (metis sublist_appendI)
qed

lemma SUBJECT_TEMPLATE_tasks: "sublist (kw_tasks kw) (SUBJECT_TEMPLATE kw)"
proof -
  have "SUBJECT_TEMPLATE kw =
    (TAB @ ''<ul class=\"elem-desc\">'' @ NL @
     TAB @ TAB @ ''<li>Subject ID: '' @ kw_subject_id kw @ ''</li>'' @ NL @
     TAB @ TAB @ ''<li>Session ID: '' @ kw_session_id kw @ ''</li>'' @ NL @
     TAB @ TAB @ ''<li>Chronological age (months): '' @ kw_age kw @ ''</li>'' @ NL @
     TAB @ TAB @ ''<li>Structural images: '' @ kw_num_t1w kw @ '' T1-weighted, '' @
       kw_num_t2w kw @ '' T2-weighted</li>'' @ NL @
     TAB @ TAB @ ''<li>Anatomical reference space: '' @ kw_anat_ref kw @ ''<li>'' @ NL @
     TAB @ TAB @ ''<li>Functional series: '' @ kw_n_bold kw @ ''</li>'' @ NL) @
    kw_tasks kw @
    (NL @
     TAB @ TAB @ ''<li>Standard output spaces: '' @ kw_std_spaces kw @ ''</li>'' @ NL @
     TAB @ TAB @ ''<li>Non-standard output spaces: '' @ kw_nstd_spaces kw @ ''</li>'' @ NL @
     TAB @ TAB @ ''<li>Surface reconstruction method: '' @ kw_recon_method kw @ ''</li>'' @ NL @
     TAB @ TAB @ ''<li>Surface reconstruction status: '' @ kw_recon_status kw @ ''</li>'' @ NL @
     TAB @ ''</ul>'' @ NL)"
    by (simp add: SUBJECT_TEMPLATE_def)
  then show ?thesis by (metis sublist_appendI)
qed

lemma generate_segment_Inr:
  assumes "SubjectSummary_generate_segment env rid inputs = Inr seg"
  shows "\<exists>kw ss cs. recon_status_of env rid inputs = Inr (Some (kw_recon_status kw)) \<and>
           first_files (bold_or_empty inputs) = Inr ss \<and> count_tasks ss [] = Inr cs \<and>
           kw_tasks kw = tasks_text cs \<and> seg = SUBJECT_TEMPLATE kw"
proof -
  from assms obtain st ss cs where
    r: "recon_status_of env rid inputs = Inr (Some st)"
    and f: "first_files (bold_or_empty inputs) = Inr ss"
    and c: "count_tasks ss [] = Inr cs"
    by (auto simp: SubjectSummary_generate_segment_def Let_def split: sum.splits option.splits)
  define kw where "kw =
    \<lparr>kw_subject_id = subject_id inputs,
     kw_session_id = str_session (session_id inputs),
     kw_age = str_int (age inputs),
     kw_num_t1w = str_nat (num_files (t1w inputs)),
     kw_num_t2w = str_nat (num_files (t2w inputs)),
     kw_anat_ref = str_anat (anatomical_reference inputs),
     kw_n_bold = str_nat (length ss),
     kw_tasks = tasks_text cs,
     kw_std_spaces = join '', '' (std_spaces inputs),
     kw_nstd_spaces = join '', '' (nstd_spaces inputs),
     kw_recon_method = str_recon_method (recon_method inputs),
     kw_recon_status = st\<rparr>"
  have "seg = SUBJECT_TEMPLATE kw"
    using assms r f c by (simp add: SubjectSummary_generate_segment_def Let_def kw_def)
  moreover have "kw_recon_status kw = st" "kw_tasks kw = tasks_text cs"
    by (simp_all add: kw_def)
  ultimately show ?thesis using r f c by blast
qed

lemma recon_status_no_dir:
  "subjects_dir inputs = None \<or> subjects_dir inputs = Some [] \<Longrightarrow>
   recon_status_of env rid inputs = Inr (Some ''Not run'')"
  by (auto simp: recon_status_of_def status_no_def)

lemma recon_status_no_method:
  "subjects_dir inputs \<noteq> None \<Longrightarrow> subjects_dir inputs \<noteq> Some [] \<Longrightarrow>
   recon_method inputs = None \<Longrightarrow> recon_status_of env rid inputs = Inr None"
  by (auto simp: recon_status_of_def)

lemma generate_segment_unbound:
  "recon_status_of env rid inputs = Inr None \<Longrightarrow>
   (\<exists>e. SubjectSummary_generate_segment env rid inputs = Inl e) \<and>
   (\<forall>ss cs. first_files (bold_or_empty inputs) = Inr ss \<and> count_tasks ss [] = Inr cs \<longrightarrow>
      SubjectSummary_generate_segment env rid inputs = Inl UnboundLocalError)"
  by (auto simp: SubjectSummary_generate_segment_def Let_def split: sum.splits option.splits)

lemma count_tasks_fail:
  "s \<in> set ss \<Longrightarrow> series_task s = Inl e \<Longrightarrow> \<exists>e'. count_tasks ss acc = Inl e'"
  by (induction ss arbitrary: acc) (auto split: sum.splits)

lemma count_tasks_first_fail:
  "\<forall>p\<in>set pre. \<exists>t. series_task p = Inr t \<Longrightarrow> series_task s = Inl e \<Longrightarrow>
   count_tasks (pre @ s # post) acc = Inl e"
  by (induction pre arbitrary: acc) (auto split: sum.splits)

lemmas bids_defs =
  series_task_def BIDS_NAME_search_def match_entity_def match_groups_def match_optional_def
  alnum_def

lemma example_series_task:
  "series_task ''/data/sub-01/func/sub-01_task-rest_run-1_bold.nii.gz'' = Inr ''rest''"
  "series_task ''/data/sub-01/func/sub-01_task-rest_run-2_bold.nii.gz'' = Inr ''rest''"
  "series_task ''sub-01_task-nback_echo-1_bold.nii.gz'' = Inr ''nback''"
  "series_task ''sub-01_bold.nii.gz'' = Inl TypeError"
  by (simp_all add: bids_defs)

lemma example_first_files:
  "first_files (bold_or_empty example_subject) =
     Inr [''/data/sub-01/func/sub-01_task-rest_run-1_bold.nii.gz'',
          ''sub-01_task-nback_echo-1_bold.nii.gz'',
          ''/data/sub-01/func/sub-01_task-rest_run-2_bold.nii.gz'']"
  by (simp add: bold_or_empty_def example_subject_def first_file_def)

lemma example_count_tasks:
  "count_tasks [''/data/sub-01/func/sub-01_task-rest_run-1_bold.nii.gz'',
          ''sub-01_task-nback_echo-1_bold.nii.gz'',
          ''/data/sub-01/func/sub-01_task-rest_run-2_bold.nii.gz''] [] =
     Inr [(''rest'', 2), (''nback'', 1)]"
  by (simp add: example_series_task counter_incr_def)

lemma example_texts:
  "str_int 8 = ''8''" "str_nat 0 = ''0''" "str_nat 1 = ''1''" "str_nat (Suc 0) = ''1''"
  "str_nat 3 = ''3''"
  by (simp_all add: str_int_def str_nat.simps)

lemma example_segment:
  "SubjectSummary_generate_segment example_env (recon_id example_subject) example_subject =
     Inr (SUBJECT_TEMPLATE
            \<lparr>kw_subject_id = ''01'', kw_session_id = ''<undefined>'', kw_age = ''8'',
             kw_num_t1w = ''1'', kw_num_t2w = ''0'', kw_anat_ref = ''T1w'', kw_n_bold = ''3'',
             kw_tasks = tasks_text [(''rest'', 2), (''nback'', 1)],
             kw_std_spaces = ''MNIInfant, fsLR'', kw_nstd_spaces = ''T1w'',
             kw_recon_method = ''None'', kw_recon_status = ''Not run''\<rparr>)"
proof -
  have r: "recon_status_of example_env (recon_id example_subject) example_subject =
             Inr (Some ''Not run'')"
    by (rule recon_status_no_dir) (simp add: example_subject_def)
  have l: "length [''/data/sub-01/func/sub-01_task-rest_run-1_bold.nii.gz'',
          ''sub-01_task-nback_echo-1_bold.nii.gz'',
          ''/data/sub-01/func/sub-01_task-rest_run-2_bold.nii.gz''] = (3::nat)" by simp
  have f: "subject_id example_subject = ''01''" "str_session (session_id example_subject) = ''<undefined>''"
    "str_int (age example_subject) = ''8''" "str_nat (num_files (t1w example_subject)) = ''1''"
    "str_nat (num_files (t2w example_subject)) = ''0''"
    "str_anat (anatomical_reference example_subject) = ''T1w''"
    "join '', '' (std_spaces example_subject) = ''MNIInfant, fsLR''"
    "join '', '' (nstd_spaces example_subject) = ''T1w''"
    "str_recon_method (recon_method example_subject) = ''None''"
    by (simp_all add: example_subject_def str_session_def example_texts num_files_def
        str_anat_def str_recon_method_def)
  show ?thesis
    unfolding SubjectSummary_generate_segment_def r example_first_files
    by (simp only: sum.case Let_def example_count_tasks option.case l f example_texts)
qed

text \<open>
  C7. When no subjects directory is configured (the input is unset or empty), the
  reconstruction status is \<open>Not run\<close> whatever the reconstruction method is, and every
  segment that is generated reports it in its status line.
\<close>

theorem recon_status_not_run:
  "subjects_dir inputs = None \<or> subjects_dir inputs = Some [] \<Longrightarrow>
   recon_status_of env rid inputs = Inr (Some ''Not run'') \<and>
   (\<forall>seg. SubjectSummary_generate_segment env rid inputs = Inr seg \<longrightarrow>
      sublist ''<li>Surface reconstruction status: Not run</li>'' seg)"
proof -
  assume d: "subjects_dir inputs = None \<or> subjects_dir inputs = Some []"
  have st: "recon_status_of env rid inputs = Inr (Some ''Not run'')"
    by (rule recon_status_no_dir[OF d])
  have "sublist ''<li>Surface reconstruction status: Not run</li>'' seg"
    if "SubjectSummary_generate_segment env rid inputs = Inr seg" for seg
  proof -
    from generate_segment_Inr[OF that] st obtain kw where
      seg: "seg = SUBJECT_TEMPLATE kw" and k: "kw_recon_status kw = ''Not run''"
      by auto
    have "sublist (''<li>Surface reconstruction status: '' @ kw_recon_status kw @ ''</li>'') seg"
      unfolding seg by (rule SUBJECT_TEMPLATE_status)
    then show ?thesis by (simp add: k)
  qed
  with st show ?thesis by blast
qed

theorem recon_status_not_run_witness:
  "(subjects_dir example_subject = None \<or> subjects_dir example_subject = Some []) \<and>
   recon_status_of example_env (recon_id example_subject) example_subject =
     Inr (Some ''Not run'') \<and>
   SubjectSummary_generate_segment example_env (recon_id example_subject) example_subject =
     Inr (SUBJECT_TEMPLATE
            \<lparr>kw_subject_id = ''01'', kw_session_id = ''<undefined>'', kw_age = ''8'',
             kw_num_t1w = ''1'', kw_num_t2w = ''0'', kw_anat_ref = ''T1w'', kw_n_bold = ''3'',
             kw_tasks = tasks_text [(''rest'', 2), (''nback'', 1)],
             kw_std_spaces = ''MNIInfant, fsLR'', kw_nstd_spaces = ''T1w'',
             kw_recon_method = ''None'', kw_recon_status = ''Not run''\<rparr>) \<and>
   sublist ''<li>Surface reconstruction status: Not run</li>''
     (SUBJECT_TEMPLATE
            \<lparr>kw_subject_id = ''01'', kw_session_id = ''<undefined>'', kw_age = ''8'',
             kw_num_t1w = ''1'', kw_num_t2w = ''0'', kw_anat_ref = ''T1w'', kw_n_bold = ''3'',
             kw_tasks = tasks_text [(''rest'', 2), (''nback'', 1)],
             kw_std_spaces = ''MNIInfant, fsLR'', kw_nstd_spaces = ''T1w'',
             kw_recon_method = ''None'', kw_recon_status = ''Not run''\<rparr>)"
proof -
  have d: "subjects_dir example_subject = None \<or> subjects_dir example_subject = Some []"
    by (simp add: example_subject_def)
  from recon_status_not_run [OF d, of example_env "recon_id example_subject"] example_segment d
  show ?thesis by blast
qed

text \<open>
  C9. A segment is generated only when the subjects directory is unset (or empty) or the
  reconstruction method is one of freesurfer, infantfs and mcribs. With a subjects
  directory and the method \<^verbatim>\<open>None\<close> no branch assigns the status and no segment is
  generated: once the tasks have been counted, reading the status raises
  \<^verbatim>\<open>UnboundLocalError\<close>.
\<close>

theorem recon_status_unbound:
  "(\<forall>env rid inputs seg. SubjectSummary_generate_segment env rid inputs = Inr seg \<longrightarrow>
      subjects_dir inputs = None \<or> subjects_dir inputs = Some [] \<or>
      recon_method inputs \<in> {Some Recon_freesurfer, Some Recon_infantfs, Some Recon_mcribs}) \<and>
   (\<forall>env rid inputs.
      subjects_dir inputs \<noteq> None \<and> subjects_dir inputs \<noteq> Some [] \<and> recon_method inputs = None \<longrightarrow>
      recon_status_of env rid inputs = Inr None \<and>
      (\<exists>e. SubjectSummary_generate_segment env rid inputs = Inl e) \<and>
      (\<forall>ss cs. first_files (bold_or_empty inputs) = Inr ss \<and> count_tasks ss [] = Inr cs \<longrightarrow>
         SubjectSummary_generate_segment env rid inputs = Inl UnboundLocalError))"
proof -
  have 2: "recon_status_of env rid inputs = Inr None \<and>
      (\<exists>e. SubjectSummary_generate_segment env rid inputs = Inl e) \<and>
      (\<forall>ss cs. first_files (bold_or_empty inputs) = Inr ss \<and> count_tasks ss [] = Inr cs \<longrightarrow>
         SubjectSummary_generate_segment env rid inputs = Inl UnboundLocalError)"
    if "subjects_dir inputs \<noteq> None" "subjects_dir inputs \<noteq> Some []" "recon_method inputs = None"
    for env rid inputs
    using recon_status_no_method[OF that] generate_segment_unbound by blast
  have 1: "subjects_dir inputs = None \<or> subjects_dir inputs = Some [] \<or>
      recon_method inputs \<in> {Some Recon_freesurfer, Some Recon_infantfs, Some Recon_mcribs}"
    if ok: "SubjectSummary_generate_segment env rid inputs = Inr seg" for env rid inputs seg
  proof (rule ccontr)
    assume n: "\<not> ?thesis"
    then have m: "recon_method inputs = None"
      by (cases "recon_method inputs") (auto intro: recon_method_value.exhaust)
    from n have "subjects_dir inputs \<noteq> None" "subjects_dir inputs \<noteq> Some []" by auto
    from 2[OF this m, of env rid] ok show False by auto
  qed
  from 1 2 show ?thesis by blast
qed

theorem recon_status_unbound_witness:
  "subjects_dir (example_subject\<lparr>subjects_dir := Some ''/out/freesurfer''\<rparr>) \<noteq> None \<and>
   subjects_dir (example_subject\<lparr>subjects_dir := Some ''/out/freesurfer''\<rparr>) \<noteq> Some [] \<and>
   recon_method (example_subject\<lparr>subjects_dir := Some ''/out/freesurfer''\<rparr>) = None \<and>
   SubjectSummary_run_interface example_env
     (example_subject\<lparr>subjects_dir := Some ''/out/freesurfer''\<rparr>) = Inl UnboundLocalError \<and>
   subjects_dir example_subject = None"
proof -
  let ?i = "example_subject\<lparr>subjects_dir := Some ''/out/freesurfer''\<rparr>"
  have h: "subjects_dir ?i \<noteq> None \<and> subjects_dir ?i \<noteq> Some [] \<and> recon_method ?i = None"
    by (simp add: example_subject_def)
  have f: "first_files (bold_or_empty ?i) =
     Inr [''/data/sub-01/func/sub-01_task-rest_run-1_bold.nii.gz'',
          ''sub-01_task-nback_echo-1_bold.nii.gz'',
          ''/data/sub-01/func/sub-01_task-rest_run-2_bold.nii.gz'']"
    using example_first_files by (simp add: bold_or_empty_def)
  from recon_status_unbound h f example_count_tasks
  have a: "SubjectSummary_generate_segment example_env (recon_id ?i) ?i = Inl UnboundLocalError"
    by blast
  have b: "subjects_dir example_subject = None" by (simp add: example_subject_def)
  from h a b show ?thesis unfolding SubjectSummary_run_interface_def by blast
qed

text \<open>
  C10. A series whose name matches the pattern without a task entity makes the slice of
  \<^verbatim>\<open>None\<close> raise \<^verbatim>\<open>TypeError\<close>. A list of series with such a name yields an error
  and no segment, never a default task; the error is this \<^verbatim>\<open>TypeError\<close> when the
  series before it have a task and the status was computed.
\<close>

theorem missing_task_raises:
  "(\<forall>s g. BIDS_NAME_search s = Some g \<and> map_of g ''task_id'' = Some None \<longrightarrow>
      series_task s = Inl TypeError) \<and>
   (\<forall>env rid inputs ss.
      first_files (bold_or_empty inputs) = Inr ss \<and> (\<exists>s\<in>set ss. series_task s = Inl TypeError) \<longrightarrow>
      (\<exists>e. SubjectSummary_generate_segment env rid inputs = Inl e)) \<and>
   (\<forall>env rid inputs pre s post st.
      first_files (bold_or_empty inputs) = Inr (pre @ s # post) \<and>
      (\<forall>p\<in>set pre. \<exists>t. series_task p = Inr t) \<and> series_task s = Inl TypeError \<and>
      recon_status_of env rid inputs = Inr st \<longrightarrow>
      SubjectSummary_generate_segment env rid inputs = Inl TypeError)"
proof -
  have 1: "series_task s = Inl TypeError"
    if "BIDS_NAME_search s = Some g" "map_of g ''task_id'' = Some None" for s g
    using that by (simp add: series_task_def)
  have 2: "\<exists>e. SubjectSummary_generate_segment env rid inputs = Inl e"
    if f: "first_files (bold_or_empty inputs) = Inr ss" and s: "s \<in> set ss"
      and t: "series_task s = Inl TypeError" for env rid inputs ss s
  proof -
    from count_tasks_fail[OF s t] obtain e' where "count_tasks ss [] = Inl e'" by blast
    with f show ?thesis
      by (auto simp: SubjectSummary_generate_segment_def Let_def split: sum.splits option.splits)
  qed
  have 3: "SubjectSummary_generate_segment env rid inputs = Inl TypeError"
    if f: "first_files (bold_or_empty inputs) = Inr (pre @ s # post)"
      and p: "\<forall>p\<in>set pre. \<exists>t. series_task p = Inr t"
      and t: "series_task s = Inl TypeError"
      and r: "recon_status_of env rid inputs = Inr st" for env rid inputs pre s post st
    using f r count_tasks_first_fail[OF p t, of post "[]"]
    by (simp add: SubjectSummary_generate_segment_def Let_def)
  from 1 2 3 show ?thesis by blast
qed

theorem missing_task_raises_witness:
  "BIDS_NAME_search ''sub-01_bold.nii.gz'' =
     Some [(''subject_id'', Some ''sub-01''), (''session_id'', None), (''task_id'', None),
           (''acq_id'', None), (''rec_id'', None), (''run_id'', None)] \<and>
   first_files (bold_or_empty (example_subject\<lparr>bold := Some [BoldFile ''sub-01_bold.nii.gz'']\<rparr>))
     = Inr ([] @ ''sub-01_bold.nii.gz'' # []) \<and>
   SubjectSummary_run_interface example_env
     (example_subject\<lparr>bold := Some [BoldFile ''sub-01_bold.nii.gz'']\<rparr>) = Inl TypeError"
proof -
  let ?i = "example_subject\<lparr>bold := Some [BoldFile ''sub-01_bold.nii.gz'']\<rparr>"
  have g: "BIDS_NAME_search ''sub-01_bold.nii.gz'' =
     Some [(''subject_id'', Some ''sub-01''), (''session_id'', None), (''task_id'', None),
           (''acq_id'', None), (''rec_id'', None), (''run_id'', None)]"
    by (simp add: bids_defs)
  have m: "map_of [(''subject_id'', Some ''sub-01''), (''session_id'', None), (''task_id'', None),
           (''acq_id'', None), (''rec_id'', None), (''run_id'', None)] ''task_id'' = Some None"
    by simp
  from missing_task_raises g m
  have t: "series_task ''sub-01_bold.nii.gz'' = Inl TypeError" by blast
  have f: "first_files (bold_or_empty ?i) = Inr ([] @ ''sub-01_bold.nii.gz'' # [])"
    by (simp add: bold_or_empty_def first_file_def)
  have p: "\<forall>p\<in>set ([]::string list). \<exists>t. series_task p = Inr t" by simp
  have r: "recon_status_of example_env (recon_id ?i) ?i = Inr (Some ''Not run'')"
    by (rule recon_status_no_dir) (simp add: example_subject_def)
  from missing_task_raises f p t r
  have "SubjectSummary_generate_segment example_env (recon_id ?i) ?i = Inl TypeError"
    by blast
  with g f show ?thesis unfolding SubjectSummary_run_interface_def by blast
qed

subsection \<open>Task counts\<close>

lemma map_of_counter_incr:
  "map_of (counter_incr t acc) k =
     (if k = t then Some (case map_of acc t of None \<Rightarrow> 1 | Some n \<Rightarrow> n + 1) else map_of acc k)"
  by (cases "map_of acc t")
     (auto simp: counter_incr_def map_of_append update_conv' map_add_def split: option.splits)

lemma distinct_counter_incr:
  "distinct (map fst acc) \<Longrightarrow> distinct (map fst (counter_incr t acc))"
proof (cases "map_of acc t")
  case None
  assume d: "distinct (map fst acc)"
  from None have "t \<notin> fst ` set acc" by (simp add: map_of_eq_None_iff)
  with d None show ?thesis by (simp add: counter_incr_def)
next
  case (Some n)
  assume "distinct (map fst acc)"
  with Some show ?thesis by (simp add: counter_incr_def distinct_update)
qed

lemma foldl_counter_distinct:
  "distinct (map fst acc) \<Longrightarrow> distinct (map fst (foldl (\<lambda>a t. counter_incr t a) acc ts))"
  by (induction ts arbitrary: acc) (simp_all add: distinct_counter_incr)

lemma foldl_counter_map_of:
  "map_of (foldl (\<lambda>a t. counter_incr t a) acc ts) k =
     (if k \<in> set ts \<or> map_of acc k \<noteq> None
      then Some ((case map_of acc k of None \<Rightarrow> 0 | Some n \<Rightarrow> n) + count_list ts k)
      else None)"
proof (induction ts arbitrary: acc)
  case Nil
  then show ?case by (auto split: option.splits)
next
  case (Cons t ts)
  show ?case
    by (simp add: Cons.IH map_of_counter_incr split: option.splits)
qed

lemma count_tasks_foldl:
  "\<forall>s\<in>set ss. \<exists>t. series_task s = Inr t \<Longrightarrow>
   count_tasks ss acc = Inr (foldl (\<lambda>a t. counter_incr t a) acc (map (\<lambda>s. projr (series_task s)) ss))"
  by (induction ss arbitrary: acc) auto

lemma count_list_tasks:
  "\<forall>s\<in>set ss. \<exists>t. series_task s = Inr t \<Longrightarrow>
   count_list (map (\<lambda>s. projr (series_task s)) ss) t =
     length (filter (\<lambda>s. series_task s = Inr t) ss)"
  by (induction ss) auto

lemma sorted_map_fst:
  fixes xs :: "('a::linorder \<times> 'b::linorder) list"
  shows "sorted xs \<Longrightarrow> sorted (map fst xs)"
proof -
  assume "sorted xs"
  then have "sorted_wrt (\<lambda>x y. fst x \<le> fst y) xs"
    by (rule sorted_wrt_mono_rel[rotated]) (auto simp: less_eq_prod_def)
  then show ?thesis by (simp add: sorted_map)
qed

lemma distinct_map_fst_sort:
  fixes xs :: "('a::linorder \<times> 'b::linorder) list"
  shows "distinct (map fst xs) \<Longrightarrow> distinct (map fst (sort xs))"
  by (simp add: distinct_map)

lemma upper_lower_disjoint:
  "set ''abcdefghijklmnopqrstuvwxyz'' \<inter> set ''ABCDEFGHIJKLMNOPQRSTUVWXYZ'' = {}"
  by simp

lemma lower_id:
  assumes "c \<in> set ''abcdefghijklmnopqrstuvwxyz''"
  shows "lower c = c"
proof -
  from assms upper_lower_disjoint have n: "c \<notin> set ''ABCDEFGHIJKLMNOPQRSTUVWXYZ''" by blast
  have l: "length ''ABCDEFGHIJKLMNOPQRSTUVWXYZ'' = length ''abcdefghijklmnopqrstuvwxyz''"
    by simp
  from map_of_zip_is_None[OF l, of c] n have
    "map_of (zip ''ABCDEFGHIJKLMNOPQRSTUVWXYZ'' ''abcdefghijklmnopqrstuvwxyz'') c = None"
    by blast
  then show ?thesis by (simp only: lower_def option.case)
qed

lemma lower_values: "lower CHR ''R'' = CHR ''r''" "lower CHR ''n'' = CHR ''n''"
  by (simp_all add: lower_def)

text \<open>
  The claim C5 as stated fails: of the tasks \<open>nback\<close> and \<open>Rest\<close> the line of \<open>Rest\<close> comes
  first, since \<^verbatim>\<open>sorted\<close> compares strings by character code and upper-case letters
  have the smaller codes; in alphabetical order \<open>nback\<close> comes first.
\<close>

theorem task_order_not_alphabetical:
  "count_tasks [''sub-01_task-nback_bold.nii.gz'', ''sub-01_task-Rest_bold.nii.gz''] [] =
     Inr [(''nback'', 1), (''Rest'', 1)] \<and>
   tasks_text [(''nback'', 1), (''Rest'', 1)] =
     join NL [tasks_header,
              TAB @ TAB @ TAB @ ''<li>Task: Rest (1 run)</li>'',
              TAB @ TAB @ TAB @ ''<li>Task: nback (1 run)</li>'',
              tasks_footer] \<and>
   map fst (sort [(''nback'', 1::nat), (''Rest'', 1)]) = [''Rest'', ''nback''] \<and>
   \<not> alphabetical [''Rest'', ''nback'']"
proof -
  have t: "series_task ''sub-01_task-nback_bold.nii.gz'' = Inr ''nback''"
    "series_task ''sub-01_task-Rest_bold.nii.gz'' = Inr ''Rest''"
    by (simp_all add: bids_defs)
  have c: "count_tasks [''sub-01_task-nback_bold.nii.gz'', ''sub-01_task-Rest_bold.nii.gz''] [] =
     Inr [(''nback'', 1), (''Rest'', 1)]"
    by (simp add: t counter_incr_def)
  have srt: "sort [(''nback'', 1::nat), (''Rest'', 1)] = [(''Rest'', 1), (''nback'', 1)]"
    by simp
  have l: "task_line (''Rest'', Suc 0) = TAB @ TAB @ TAB @ ''<li>Task: Rest (1 run)</li>''"
    "task_line (''nback'', Suc 0) = TAB @ TAB @ TAB @ ''<li>Task: nback (1 run)</li>''"
    by (simp_all add: task_line_def str_nat.simps)
  have x: "tasks_text [(''nback'', 1), (''Rest'', 1)] =
     join NL [tasks_header,
              TAB @ TAB @ TAB @ ''<li>Task: Rest (1 run)</li>'',
              TAB @ TAB @ TAB @ ''<li>Task: nback (1 run)</li>'',
              tasks_footer]"
    unfolding tasks_text_def srt by (simp add: l)
  have m: "map fst (sort [(''nback'', 1::nat), (''Rest'', 1)]) = [''Rest'', ''nback'']"
    unfolding srt by simp
  have n: "\<not> alphabetical [''Rest'', ''nback'']"
    by (simp add: alphabetical_def lower_def)
  from c x m n show ?thesis by blast
qed

text \<open>
  C5, amended. When every functional series has a name from which a task identifier is
  read, the count of the tasks succeeds, and the task lines of the segment are one line
  for each task identifier that occurs, with the number of series that carry it, in the
  order of the task identifiers by character code (Python's order of strings: digits
  before upper-case before lower-case letters). This is alphabetical order when the
  identifiers consist of lower-case letters. The lines stand in every generated segment.
\<close>

theorem task_counts:
  assumes f: "first_files (bold_or_empty inputs) = Inr ss"
    and ok: "\<forall>s\<in>set ss. \<exists>t. series_task s = Inr t"
  shows "\<exists>cs. count_tasks ss [] = Inr cs \<and>
           sorted (map fst (sort cs)) \<and> distinct (map fst (sort cs)) \<and>
           (\<forall>t n. (t, n) \<in> set (sort cs) \<longleftrightarrow>
                    (0 < n \<and> n = length (filter (\<lambda>s. series_task s = Inr t) ss))) \<and>
           tasks_text cs =
             (if ss = [] then []
              else join NL ([tasks_header] @ map task_line (sort cs) @ [tasks_footer])) \<and>
           (\<forall>env rid seg. SubjectSummary_generate_segment env rid inputs = Inr seg \<longrightarrow>
              sublist (tasks_text cs) seg) \<and>
           ((\<forall>t\<in>set (map fst cs). set t \<subseteq> set ''abcdefghijklmnopqrstuvwxyz'') \<longrightarrow>
              alphabetical (map fst (sort cs)))"
proof -
  define ts where "ts = map (\<lambda>s. projr (series_task s)) ss"
  define cs where "cs = foldl (\<lambda>a t. counter_incr t a) [] ts"
  have c: "count_tasks ss [] = Inr cs"
    unfolding cs_def ts_def by (rule count_tasks_foldl[OF ok])
  have d: "distinct (map fst cs)"
    unfolding cs_def by (rule foldl_counter_distinct) simp
  have m: "map_of cs k = (if k \<in> set ts then Some (count_list ts k) else None)" for k
    unfolding cs_def by (simp add: foldl_counter_map_of)
  have cl: "count_list ts t = length (filter (\<lambda>s. series_task s = Inr t) ss)" for t
    unfolding ts_def by (rule count_list_tasks[OF ok])
  have mem: "(t, n) \<in> set (sort cs) \<longleftrightarrow>
               (0 < n \<and> n = length (filter (\<lambda>s. series_task s = Inr t) ss))" for t n
  proof -
    have "(t, n) \<in> set (sort cs) \<longleftrightarrow> map_of cs t = Some n"
      using d by simp
    also have "\<dots> \<longleftrightarrow> (t \<in> set ts \<and> n = count_list ts t)"
      by (auto simp: m)
    also have "\<dots> \<longleftrightarrow> (0 < n \<and> n = count_list ts t)"
      using count_list_0_iff[of ts t] by (cases "count_list ts t") auto
    finally show ?thesis by (simp add: cl)
  qed
  have s1: "sorted (map fst (sort cs))"
    by (rule sorted_map_fst) simp
  have s2: "distinct (map fst (sort cs))"
    by (rule distinct_map_fst_sort[OF d])
  have e: "cs = [] \<longleftrightarrow> ss = []"
  proof
    assume "cs = []"
    then have "\<forall>k. k \<notin> set ts" using m by (metis map_of.simps(1) option.distinct(1))
    then show "ss = []" by (simp add: ts_def)
  next
    assume "ss = []"
    then show "cs = []" by (simp add: cs_def ts_def)
  qed
  have tt: "tasks_text cs =
             (if ss = [] then []
              else join NL ([tasks_header] @ map task_line (sort cs) @ [tasks_footer]))"
    using e by (simp add: tasks_text_def)
  have sub: "sublist (tasks_text cs) seg"
    if g: "SubjectSummary_generate_segment env rid inputs = Inr seg" for env rid seg
  proof -
    from generate_segment_Inr[OF g] f c obtain kw where
      seg: "seg = SUBJECT_TEMPLATE kw" and k: "kw_tasks kw = tasks_text cs"
      by auto
    show ?thesis unfolding seg k[symmetric] by (rule SUBJECT_TEMPLATE_tasks)
  qed
  have al: "alphabetical (map fst (sort cs))"
    if low: "\<forall>t\<in>set (map fst cs). set t \<subseteq> set ''abcdefghijklmnopqrstuvwxyz''"
  proof -
    have "map lower t = t" if "t \<in> set (map fst (sort cs))" for t
    proof -
      from that have "t \<in> set (map fst cs)" by (simp only: set_map set_sort)
      with low have "set t \<subseteq> set ''abcdefghijklmnopqrstuvwxyz''" by blast
      then show ?thesis by (intro map_idI lower_id) blast
    qed
    then have "map (map lower) (map fst (sort cs)) = map fst (sort cs)"
      by (rule map_idI)
    with s1 show ?thesis by (simp only: alphabetical_def)
  qed
  from c s1 s2 mem tt sub al show ?thesis by blast
qed

theorem task_counts_witness:
  "first_files (bold_or_empty example_subject) =
     Inr [''/data/sub-01/func/sub-01_task-rest_run-1_bold.nii.gz'',
          ''sub-01_task-nback_echo-1_bold.nii.gz'',
          ''/data/sub-01/func/sub-01_task-rest_run-2_bold.nii.gz''] \<and>
   series_task ''/data/sub-01/func/sub-01_task-rest_run-1_bold.nii.gz'' = Inr ''rest'' \<and>
   series_task ''sub-01_task-nback_echo-1_bold.nii.gz'' = Inr ''nback'' \<and>
   series_task ''/data/sub-01/func/sub-01_task-rest_run-2_bold.nii.gz'' = Inr ''rest'' \<and>
   count_tasks [''/data/sub-01/func/sub-01_task-rest_run-1_bold.nii.gz'',
          ''sub-01_task-nback_echo-1_bold.nii.gz'',
          ''/data/sub-01/func/sub-01_task-rest_run-2_bold.nii.gz''] [] =
     Inr [(''rest'', 2), (''nback'', 1)] \<and>
   sort [(''rest'', 2::nat), (''nback'', 1)] = [(''nback'', 1), (''rest'', 2)] \<and>
   sorted (map fst (sort [(''rest'', 2::nat), (''nback'', 1)])) \<and>
   tasks_text [(''rest'', 2), (''nback'', 1)] =
     join NL [tasks_header,
              TAB @ TAB @ TAB @ ''<li>Task: nback (1 run)</li>'',
              TAB @ TAB @ TAB @ ''<li>Task: rest (2 runs)</li>'',
              tasks_footer] \<and>
   set ''rest'' \<subseteq> set ''abcdefghijklmnopqrstuvwxyz'' \<and>
   set ''nback'' \<subseteq> set ''abcdefghijklmnopqrstuvwxyz'' \<and>
   alphabetical [''nback'', ''rest'']"
proof -
  let ?ss = "[''/data/sub-01/func/sub-01_task-rest_run-1_bold.nii.gz'',
          ''sub-01_task-nback_echo-1_bold.nii.gz'',
          ''/data/sub-01/func/sub-01_task-rest_run-2_bold.nii.gz'']"
  let ?cs = "[(''rest'', 2::nat), (''nback'', 1)]"
  have ok: "\<forall>s\<in>set ?ss. \<exists>t. series_task s = Inr t"
    by (simp add: example_series_task)
  from task_counts [OF example_first_files ok] obtain cs where
    c: "count_tasks ?ss [] = Inr cs" and s: "sorted (map fst (sort cs))"
    and t: "tasks_text cs =
             (if ?ss = [] then []
              else join NL ([tasks_header] @ map task_line (sort cs) @ [tasks_footer]))"
    and al: "(\<forall>t\<in>set (map fst cs). set t \<subseteq> set ''abcdefghijklmnopqrstuvwxyz'') \<longrightarrow>
              alphabetical (map fst (sort cs))"
    by blast
  from c have cs: "cs = ?cs" by (simp only: example_count_tasks sum.inject)
  have srt: "sort ?cs = [(''nback'', 1), (''rest'', 2)]" by simp
  have l: "task_line (''nback'', 1) = TAB @ TAB @ TAB @ ''<li>Task: nback (1 run)</li>''"
    "task_line (''nback'', Suc 0) = TAB @ TAB @ TAB @ ''<li>Task: nback (1 run)</li>''"
    "task_line (''rest'', 2) = TAB @ TAB @ TAB @ ''<li>Task: rest (2 runs)</li>''"
    by (simp_all add: task_line_def str_nat.simps)
  have t': "tasks_text ?cs =
     join NL [tasks_header,
              TAB @ TAB @ TAB @ ''<li>Task: nback (1 run)</li>'',
              TAB @ TAB @ TAB @ ''<li>Task: rest (2 runs)</li>'',
              tasks_footer]"
    using t unfolding cs srt by (simp add: l)
  from s have s': "sorted (map fst (sort ?cs))" unfolding cs .
  have lo: "set ''rest'' \<subseteq> set ''abcdefghijklmnopqrstuvwxyz''"
    "set ''nback'' \<subseteq> set ''abcdefghijklmnopqrstuvwxyz''"
    by simp_all
  then have "\<forall>t\<in>set (map fst ?cs). set t \<subseteq> set ''abcdefghijklmnopqrstuvwxyz''"
    by simp
  with al have "alphabetical (map fst (sort ?cs))" unfolding cs by blast
  then have a': "alphabetical [''nback'', ''rest'']" unfolding srt by simp
  from example_first_files example_series_task(1,2,3) example_count_tasks srt s' t' lo a'
  show ?thesis by blast
qed

end
